theory Spec2Isabelle
  imports Complex_Main "HOL-Library.Log_Nat"
begin

section \<open>JavaScript values\<close>

text \<open>
  The rule element works on untyped data: the actor's data tree, the rule's own source
  and the change value are JSON-like JavaScript values. A number is an IEEE 754 binary64
  value: \<open>NaN\<close>, an infinity, the negative zero, or a finite value \<open>Fin q\<close>, where the
  rational \<open>q\<close> is the value of the double; \<open>Fin 0\<close> is the positive zero.
\<close>

datatype jsnum = NaN | Fin rat | NegZero | PosInfinity | NegInfinity

datatype jsval =
    JUndefined
  | JNull
  | JBool bool
  | JNum jsnum
  | JStr string
  | JArr "jsval list"
  | JObj "(string \<times> jsval) list"

text \<open>The \<open>typeof\<close> operator.\<close>

fun typeof_js :: "jsval \<Rightarrow> string" where
  "typeof_js JUndefined = ''undefined''"
| "typeof_js JNull = ''object''"
| "typeof_js (JBool b) = ''boolean''"
| "typeof_js (JNum n) = ''number''"
| "typeof_js (JStr s) = ''string''"
| "typeof_js (JArr xs) = ''object''"
| "typeof_js (JObj kvs) = ''object''"

text \<open>\<open>Number.isNaN\<close>.\<close>

fun isNaN :: "jsnum \<Rightarrow> bool" where
  "isNaN NaN = True"
| "isNaN n = False"

text \<open>
  Rounding to binary64, to nearest with ties to even. A positive rational \<open>x\<close> lies in
  one binade, \<open>2 ^ k \<le> x < 2 ^ (k + 1)\<close>; its exponent \<open>k\<close> is read off the bit lengths
  of numerator and denominator, whose difference is \<open>k\<close> or \<open>k + 1\<close>. The double nearest
  to \<open>x\<close> is \<open>m * 2 ^ e\<close> where \<open>e = k - 52\<close>, or \<open>- 1074\<close> for a subnormal, and \<open>m\<close> is
  \<open>x / 2 ^ e\<close> rounded to an integer, half-way cases to the even one. A result of
  \<open>2 ^ 1024\<close> or more is an infinity, and a result of zero keeps the sign.
\<close>

definition floor_log2 :: "rat \<Rightarrow> int" where
  "floor_log2 x =
     (let (p, q) = quotient_of x; d = bitlen p - bitlen q
      in if 2 powi d \<le> x then d else d - 1)"

definition round_half_even :: "rat \<Rightarrow> int" where
  "round_half_even y =
     (let f = \<lfloor>y\<rfloor>; r = y - of_int f
      in if r < 1 / 2 then f else if 1 / 2 < r then f + 1 else if even f then f else f + 1)"

definition round64 :: "rat \<Rightarrow> jsnum" where
  "round64 x =
     (if x = 0 then Fin 0
      else
        let a = \<bar>x\<bar>;
            e = max (floor_log2 a - 52) (- 1074);
            m = round_half_even (a / 2 powi e);
            r = of_int m * 2 powi e
        in if 2 powi 1024 \<le> r then (if x < 0 then NegInfinity else PosInfinity)
           else if m = 0 then (if x < 0 then NegZero else Fin 0)
           else Fin (if x < 0 then - r else r))"

text \<open>
  \<open>*\<close> and \<open>+\<close> on two numbers: the exact result, rounded. A product that is exactly
  zero has the sign of its factors; a sum that is exactly zero is the positive zero,
  unless both terms are the negative zero. \<open>Math.min\<close> and \<open>Math.max\<close> of two numbers do
  not round, and take the negative zero to be less than the positive one.
\<close>

fun js_times :: "jsnum \<Rightarrow> jsnum \<Rightarrow> jsnum" where
  "js_times NaN b = NaN"
| "js_times a NaN = NaN"
| "js_times (Fin x) (Fin y) =
     (if x * y = 0 then (if (x < 0) \<noteq> (y < 0) then NegZero else Fin 0) else round64 (x * y))"
| "js_times (Fin x) NegZero = (if x < 0 then Fin 0 else NegZero)"
| "js_times NegZero (Fin y) = (if y < 0 then Fin 0 else NegZero)"
| "js_times NegZero NegZero = Fin 0"
| "js_times (Fin x) PosInfinity = (if x = 0 then NaN else if x < 0 then NegInfinity else PosInfinity)"
| "js_times (Fin x) NegInfinity = (if x = 0 then NaN else if x < 0 then PosInfinity else NegInfinity)"
| "js_times PosInfinity (Fin y) = (if y = 0 then NaN else if y < 0 then NegInfinity else PosInfinity)"
| "js_times NegInfinity (Fin y) = (if y = 0 then NaN else if y < 0 then PosInfinity else NegInfinity)"
| "js_times NegZero PosInfinity = NaN"
| "js_times NegZero NegInfinity = NaN"
| "js_times PosInfinity NegZero = NaN"
| "js_times NegInfinity NegZero = NaN"
| "js_times PosInfinity PosInfinity = PosInfinity"
| "js_times PosInfinity NegInfinity = NegInfinity"
| "js_times NegInfinity PosInfinity = NegInfinity"
| "js_times NegInfinity NegInfinity = PosInfinity"

fun js_plus :: "jsnum \<Rightarrow> jsnum \<Rightarrow> jsnum" where
  "js_plus NaN b = NaN"
| "js_plus a NaN = NaN"
| "js_plus (Fin x) (Fin y) = (if x + y = 0 then Fin 0 else round64 (x + y))"
| "js_plus (Fin x) NegZero = Fin x"
| "js_plus NegZero (Fin y) = Fin y"
| "js_plus NegZero NegZero = NegZero"
| "js_plus PosInfinity NegInfinity = NaN"
| "js_plus NegInfinity PosInfinity = NaN"
| "js_plus PosInfinity b = PosInfinity"
| "js_plus NegInfinity b = NegInfinity"
| "js_plus a PosInfinity = PosInfinity"
| "js_plus a NegInfinity = NegInfinity"

fun Math_min :: "jsnum \<Rightarrow> jsnum \<Rightarrow> jsnum" where
  "Math_min NaN b = NaN"
| "Math_min a NaN = NaN"
| "Math_min (Fin x) (Fin y) = Fin (min x y)"
| "Math_min (Fin x) NegZero = (if x < 0 then Fin x else NegZero)"
| "Math_min NegZero (Fin y) = (if y < 0 then Fin y else NegZero)"
| "Math_min NegZero NegZero = NegZero"
| "Math_min NegInfinity b = NegInfinity"
| "Math_min a NegInfinity = NegInfinity"
| "Math_min PosInfinity b = b"
| "Math_min a PosInfinity = a"

fun Math_max :: "jsnum \<Rightarrow> jsnum \<Rightarrow> jsnum" where
  "Math_max NaN b = NaN"
| "Math_max a NaN = NaN"
| "Math_max (Fin x) (Fin y) = Fin (max x y)"
| "Math_max (Fin x) NegZero = (if 0 \<le> x then Fin x else NegZero)"
| "Math_max NegZero (Fin y) = (if 0 \<le> y then Fin y else NegZero)"
| "Math_max NegZero NegZero = NegZero"
| "Math_max PosInfinity b = PosInfinity"
| "Math_max a PosInfinity = PosInfinity"
| "Math_max NegInfinity b = b"
| "Math_max a NegInfinity = a"

text \<open>
  \<open>current ?? 0\<close> where \<open>current\<close> has been narrowed to a number, \<open>undefined\<close> or \<open>null\<close>:
  the number itself, and the default for the two nullish values.
\<close>

fun nullish_num :: "jsval \<Rightarrow> jsnum \<Rightarrow> jsnum" where
  "nullish_num (JNum c) d = c"
| "nullish_num _ d = d"

text \<open>Truthiness of a number, for \<open>a || b\<close>.\<close>

fun truthy_num :: "jsnum \<Rightarrow> bool" where
  "truthy_num NaN = False"
| "truthy_num (Fin q) = (q \<noteq> 0)"
| "truthy_num NegZero = False"
| "truthy_num PosInfinity = True"
| "truthy_num NegInfinity = True"


section \<open>The regular expressions of the rule element\<close>

text \<open>\<open>\w\<close> is a letter, a digit or the underscore; \<open>\d\<close> is a digit.\<close>

definition word_char :: "char \<Rightarrow> bool" where
  "word_char c =
     (let n = (of_char c :: nat)
      in (48 \<le> n \<and> n \<le> 57) \<or> (65 \<le> n \<and> n \<le> 90) \<or> n = 95 \<or> (97 \<le> n \<and> n \<le> 122))"

definition digit_char :: "char \<Rightarrow> bool" where
  "digit_char c = (let n = (of_char c :: nat) in 48 \<le> n \<and> n \<le> 57)"

text \<open>
  \<open>path.replace(/\.\w+$/, "")\<close>: the only possible match is a dot followed by the word
  characters that end the string, so the string is read from its end.
\<close>

definition strip_last_segment :: "string \<Rightarrow> string" where
  "strip_last_segment s =
     (let r = rev s; seg = takeWhile word_char r
      in case dropWhile word_char r of
           [] \<Rightarrow> s
         | c # rest \<Rightarrow> if c = CHR ''.'' \<and> seg \<noteq> [] then rev rest else s)"

text \<open>
  \<open>path.replace(/\.?\w+\.\w+$/, "")\<close>: the match ends the string with two runs of word
  characters around a dot; the leftmost match takes the whole first run and the dot in
  front of it when there is one.
\<close>

definition strip_last_two_segments :: "string \<Rightarrow> string" where
  "strip_last_two_segments s =
     (let r = rev s; seg2 = takeWhile word_char r
      in case dropWhile word_char r of
           [] \<Rightarrow> s
         | c # r1 \<Rightarrow>
             if c = CHR ''.'' \<and> seg2 \<noteq> [] \<and> takeWhile word_char r1 \<noteq> []
             then (case dropWhile word_char r1 of
                     [] \<Rightarrow> []
                   | d # r2 \<Rightarrow> if d = CHR ''.'' then rev r2 else rev (d # r2))
             else s)"

text \<open>
  \<open>/\bundefined\b/.test(path)\<close>: the word \<open>undefined\<close> occurs with no word character
  directly before or after it. The scan carries whether the previous character was a
  word character.
\<close>

fun undefined_scan :: "bool \<Rightarrow> string \<Rightarrow> bool" where
  "undefined_scan prev [] = False"
| "undefined_scan prev (c # cs) =
     ((\<not> prev \<and> take 9 (c # cs) = ''undefined'' \<and>
       (case drop 9 (c # cs) of [] \<Rightarrow> True | d # _ \<Rightarrow> \<not> word_char d))
      \<or> undefined_scan (word_char c) cs)"

definition has_undefined_token :: "string \<Rightarrow> bool" where
  "has_undefined_token s = undefined_scan False s"

text \<open>
  \<open>/-(\d+)$/.exec(location)?.[1]\<close>: the digits that end the string when a hyphen stands
  before them, and \<open>Number\<close> of that capture: the double nearest to the decimal number,
  and \<open>NaN\<close> when there is no match.
\<close>

definition trailing_level_digits :: "string \<Rightarrow> string option" where
  "trailing_level_digits s =
     (let r = rev s; ds = takeWhile digit_char r
      in case dropWhile digit_char r of
           [] \<Rightarrow> None
         | c # rest \<Rightarrow> if c = CHR ''-'' \<and> ds \<noteq> [] then Some (rev ds) else None)"

definition digits_value :: "string \<Rightarrow> int" where
  "digits_value ds = foldl (\<lambda>acc c. acc * 10 + (int (of_char c) - 48)) 0 ds"

definition Number_of_capture :: "string option \<Rightarrow> jsnum" where
  "Number_of_capture m =
     (case m of None \<Rightarrow> NaN | Some ds \<Rightarrow> round64 (of_int (digits_value ds)))"


section \<open>The rule element and its collaborators\<close>

text \<open>
  The owning item, as far as the rule element reads it: its name and uuid (for
  diagnostics), whether it is a feat, the feat's location (absent when null or undefined)
  and its \<open>level\<close> property (absent when the item has none).
\<close>

record item_data =
  item_name :: string
  item_uuid :: string
  is_feat :: bool
  location :: "string option"
  item_level :: "jsval option"

text \<open>
  The raw source of a rule (\<open>AELikeSource\<close>): mode and path are unknown values, priority
  and phase are optional, the predicate is an opaque test over a set of roll options.
\<close>

record AELikeSource =
  src_mode :: jsval
  src_path :: jsval
  src_value :: jsval
  src_priority :: "jsnum option"
  src_phase :: "string option"
  src_predicate :: "(string list \<Rightarrow> bool) option"

text \<open>The constructed rule element: its data (\<open>AELikeData\<close>), its flag and its item.\<close>

record AELikeRuleElement =
  path :: jsval
  mode :: jsval
  rvalue :: jsval
  priority :: jsnum
  phase :: string
  predicate :: "(string list \<Rightarrow> bool) option"
  ignored :: bool
  item :: item_data

text \<open>One entry of the change log (\<open>AutoChangeEntry\<close>).\<close>

record AutoChangeEntry =
  entry_mode :: jsval
  entry_level :: jsval
  entry_value :: jsval
  entry_source :: string

text \<open>
  The host: the data tree accessors \<open>getProperty\<close> and \<open>setProperty\<close>, the actor's roll
  options, and the two resolvers of the base rule element. None of them is part of the
  rule element; they are parameters. The resolvers and the roll options read the actor,
  so they take the tree.
\<close>

record 't host =
  getProperty :: "'t \<Rightarrow> string \<Rightarrow> jsval"
  setProperty :: "'t \<Rightarrow> string \<Rightarrow> jsval \<Rightarrow> 't"
  getRollOptions :: "'t \<Rightarrow> string list"
  resolveInjectedProperties :: "'t \<Rightarrow> string \<Rightarrow> string"
  resolveValue :: "'t \<Rightarrow> jsval \<Rightarrow> jsval"

text \<open>
  What a rule element can change outside itself: the actor's data tree, the change log
  (\<open>autoChanges\<close>, keyed by path; it is kept apart from the tree, for rules whose path
  does not point into the log itself) and the console.
\<close>

record 't world =
  data :: 't
  autoChanges :: "string \<rightharpoonup> AutoChangeEntry list"
  console :: "string list"


section \<open>Construction\<close>

definition CHANGE_MODES :: "string list" where
  "CHANGE_MODES = [''multiply'', ''add'', ''downgrade'', ''upgrade'', ''override'']"

text \<open>\<open>Array.prototype.indexOf\<close>: the first index of the element, or \<open>-1\<close>.\<close>

fun index_from :: "string list \<Rightarrow> string \<Rightarrow> int \<Rightarrow> int" where
  "index_from [] x i = - 1"
| "index_from (y # ys) x i = (if y = x then i else index_from ys x (i + 1))"

definition indexOf :: "string list \<Rightarrow> string \<Rightarrow> int" where
  "indexOf xs x = index_from xs x 0"

text \<open>The value that \<open>data.priority ??= ...\<close> assigns when no priority is given.\<close>

definition default_priority :: "jsval \<Rightarrow> jsnum" where
  "default_priority m =
     (case m of
        JStr s \<Rightarrow>
          if s \<in> set CHANGE_MODES then Fin (of_int (indexOf CHANGE_MODES s * 10 + 10))
          else NaN
      | _ \<Rightarrow> NaN)"

text \<open>\<open>warn\<close>: one line on the console, naming the property, the item and its uuid.\<close>

definition warn_message :: "string \<Rightarrow> item_data \<Rightarrow> string" where
  \<open>warn_message p it =
     ''PF2e System | "'' @ p @ ''" property on RuleElement from item '' @ item_name it @
     '' ('' @ item_uuid it @ '') is invalid''\<close>

definition warn :: "item_data \<Rightarrow> string \<Rightarrow> 't world \<Rightarrow> 't world" where
  "warn it p w = w\<lparr>console := console w @ [warn_message p it]\<rparr>"

text \<open>
  Modelled from the spec: the constructor of the base class \<open>RuleElementPF2e\<close> (called
  as \<open>super(data, item)\<close>) is not in src. By the spec's data model the directive holds the
  fields it was given, and \<open>ignored\<close> is set only by the validation that follows, so the
  base constructor stores the data and the item and starts with \<open>ignored = false\<close>.
\<close>

definition RuleElementPF2e :: "AELikeSource \<Rightarrow> jsnum \<Rightarrow> string \<Rightarrow> item_data \<Rightarrow> AELikeRuleElement" where
  "RuleElementPF2e src prio ph it =
     \<lparr>path = src_path src, mode = src_mode src, rvalue = src_value src, priority = prio,
      phase = ph, predicate = src_predicate src, ignored = False, item = it\<rparr>"

text \<open>
  The constructor of \<open>AELikeRuleElement\<close>. The test of line 32 compares the string that
  \<open>typeof\<close> returns with the value \<open>undefined\<close>, by \<open>!==\<close>; it is written here as it is
  in the source, as an inequality of two values.
\<close>

definition pathIsValid :: "'t host \<Rightarrow> 't \<Rightarrow> jsval \<Rightarrow> bool" where
  "pathIsValid h actor_data pth =
     (case pth of
        JStr p \<Rightarrow>
          list_ex (\<lambda>q. JStr (typeof_js (getProperty h actor_data q)) \<noteq> JUndefined)
            [p, strip_last_segment p, strip_last_two_segments p]
      | _ \<Rightarrow> False)"

definition valueIsValid :: "jsval \<Rightarrow> bool" where
  "valueIsValid v = (typeof_js v \<in> set [''number'', ''string'', ''boolean'', ''object''])"

definition construct ::
  "'t host \<Rightarrow> AELikeSource \<Rightarrow> item_data \<Rightarrow> 't world \<Rightarrow> AELikeRuleElement \<times> 't world" where
  "construct h src it w =
     (let prio = (case src_priority src of
                    Some p \<Rightarrow> p
                  | None \<Rightarrow> default_priority (src_mode src));
          ph = (case src_phase src of Some p \<Rightarrow> p | None \<Rightarrow> ''applyAEs'');
          this = RuleElementPF2e src prio ph it
      in if isNaN (priority this) then (this\<lparr>ignored := True\<rparr>, w)
         else
           let pv = pathIsValid h (data w) (path this);
               w1 = (if \<not> pv then warn it ''path'' w else w);
               vv = valueIsValid (rvalue this);
               w2 = (if \<not> vv then warn it ''value'' w1 else w1)
           in if \<not> (pv \<and> vv) then (this\<lparr>ignored := True\<rparr>, w2) else (this, w2))"


section \<open>Applying a rule element\<close>

text \<open>
  \<open>logChange\<close>. The level is read from the item: for a feat, the digits that end its
  location, or else its level; for another item, its \<open>level\<close> property when that is a
  number; \<open>null\<close> otherwise. The key of the entry is \<open>this.path\<close>, which the caller has
  just stored as a string and hands over.
\<close>

definition change_level :: "item_data \<Rightarrow> jsval" where
  "change_level it =
     (if is_feat it then
        (let n = Number_of_capture
                   (trailing_level_digits (case location it of None \<Rightarrow> [] | Some l \<Rightarrow> l))
         in if truthy_num n then JNum n
            else (case item_level it of None \<Rightarrow> JUndefined | Some l \<Rightarrow> l))
      else (case item_level it of
              Some (JNum l) \<Rightarrow> JNum l
            | _ \<Rightarrow> JNull))"

text \<open>\<open>autoChanges[path] ??= []\<close>, read: the entries under a path, none when it has no list.\<close>

definition entries_at :: "(string \<rightharpoonup> AutoChangeEntry list) \<Rightarrow> string \<Rightarrow> AutoChangeEntry list" where
  "entries_at changes p = (case changes p of None \<Rightarrow> [] | Some es \<Rightarrow> es)"

text \<open>\<open>entries.push(entry)\<close> on that list: the entry goes to the end of the path's list.\<close>

definition push_entry ::
  "(string \<rightharpoonup> AutoChangeEntry list) \<Rightarrow> string \<Rightarrow> AutoChangeEntry \<Rightarrow> (string \<rightharpoonup> AutoChangeEntry list)" where
  "push_entry changes p e = changes(p \<mapsto> entries_at changes p @ [e])"

definition logChange :: "AELikeRuleElement \<Rightarrow> string \<Rightarrow> jsval \<Rightarrow> 't world \<Rightarrow> 't world" where
  "logChange this p v w =
     (if typeof_js v = ''string'' \<and> mode this \<noteq> JStr ''override'' then w
      else
        let level = change_level (item this)
        in w\<lparr>autoChanges := push_entry (autoChanges w) p
               \<lparr>entry_mode = mode this, entry_level = level, entry_value = v,
                entry_source = item_name (item this)\<rparr>\<rparr>)"

text \<open>
  The cases of the \<open>switch\<close>. \<open>typeof change === "number"\<close> is the match on \<open>JNum\<close>.
\<close>

definition case_multiply ::
  "'t host \<Rightarrow> AELikeRuleElement \<Rightarrow> string \<Rightarrow> jsval \<Rightarrow> jsval \<Rightarrow> 't world \<Rightarrow> 't world" where
  "case_multiply h this p change current w =
     (case change of
        JNum v \<Rightarrow>
          if typeof_js current = ''number'' \<or> current = JUndefined then
            let newValue = JNum (js_times (nullish_num current (Fin 0)) v);
                w1 = w\<lparr>data := setProperty h (data w) p newValue\<rparr>
            in logChange this p change w1
          else warn (item this) ''path'' w
      | _ \<Rightarrow> warn (item this) ''path'' w)"

text \<open>
  \<open>current.push(change)\<close> changes the array that \<open>getProperty\<close> returned, in place. In a
  tree of values that is the tree whose entry at the path holds the longer array.
\<close>

definition push_in_place :: "'t host \<Rightarrow> 't \<Rightarrow> string \<Rightarrow> jsval list \<Rightarrow> jsval \<Rightarrow> 't" where
  "push_in_place h t p xs x = setProperty h t p (JArr (xs @ [x]))"

definition array_add ::
  "'t host \<Rightarrow> AELikeRuleElement \<Rightarrow> string \<Rightarrow> jsval \<Rightarrow> jsval \<Rightarrow> 't world \<Rightarrow> 't world" where
  "array_add h this p change current w =
     (case current of
        JArr xs \<Rightarrow>
          if list_all (\<lambda>e. typeof_js e = typeof_js change) xs
          then w\<lparr>data := push_in_place h (data w) p xs change\<rparr>
          else warn (item this) ''path'' w
      | _ \<Rightarrow> warn (item this) ''path'' w)"

definition case_add ::
  "'t host \<Rightarrow> AELikeRuleElement \<Rightarrow> string \<Rightarrow> jsval \<Rightarrow> jsval \<Rightarrow> 't world \<Rightarrow> 't world" where
  "case_add h this p change current w =
     (case change of
        JNum v \<Rightarrow>
          if typeof_js current = ''number'' \<or> current = JUndefined \<or> current = JNull then
            let newValue = JNum (js_plus (nullish_num current (Fin 0)) v);
                w1 = w\<lparr>data := setProperty h (data w) p newValue\<rparr>
            in logChange this p change w1
          else array_add h this p change current w
      | _ \<Rightarrow> array_add h this p change current w)"

definition case_downgrade ::
  "'t host \<Rightarrow> AELikeRuleElement \<Rightarrow> string \<Rightarrow> jsval \<Rightarrow> jsval \<Rightarrow> 't world \<Rightarrow> 't world" where
  "case_downgrade h this p change current w =
     (case change of
        JNum v \<Rightarrow>
          if typeof_js current = ''number'' \<or> current = JUndefined then
            let newValue = JNum (Math_min (nullish_num current (Fin 0)) v);
                w1 = w\<lparr>data := setProperty h (data w) p newValue\<rparr>
            in logChange this p change w1
          else warn (item this) ''path'' w
      | _ \<Rightarrow> warn (item this) ''path'' w)"

definition case_upgrade ::
  "'t host \<Rightarrow> AELikeRuleElement \<Rightarrow> string \<Rightarrow> jsval \<Rightarrow> jsval \<Rightarrow> 't world \<Rightarrow> 't world" where
  "case_upgrade h this p change current w =
     (case change of
        JNum v \<Rightarrow>
          if typeof_js current = ''number'' \<or> current = JUndefined then
            let newValue = JNum (Math_max (nullish_num current (Fin 0)) v);
                w1 = w\<lparr>data := setProperty h (data w) p newValue\<rparr>
            in logChange this p change w1
          else warn (item this) ''path'' w
      | _ \<Rightarrow> warn (item this) ''path'' w)"

text \<open>
  Modelled from the spec: \<open>isObject\<close> of \<open>@util\<close> is not in src. The spec's override row
  reads "if value is a plain key-value object, resolve placeholders in each
  string-valued member", so it holds of the key-value objects only.
\<close>

definition isObject :: "jsval \<Rightarrow> bool" where
  "isObject v = (case v of JObj kvs \<Rightarrow> True | _ \<Rightarrow> False)"

text \<open>The loop over \<open>Object.entries(change)\<close>: every string member is resolved.\<close>

definition resolve_members :: "'t host \<Rightarrow> 't \<Rightarrow> jsval \<Rightarrow> jsval" where
  "resolve_members h t change =
     (case change of
        JObj kvs \<Rightarrow>
          JObj (map (\<lambda>(key, v). (key, case v of
                                         JStr s \<Rightarrow> JStr (resolveInjectedProperties h t s)
                                       | _ \<Rightarrow> v)) kvs)
      | _ \<Rightarrow> change)"

definition case_override ::
  "'t host \<Rightarrow> AELikeRuleElement \<Rightarrow> string \<Rightarrow> jsval \<Rightarrow> 't world \<Rightarrow> 't world" where
  "case_override h this p change w =
     (let currentValue = getProperty h (data w) p
      in if typeof_js change = typeof_js currentValue \<or> currentValue = JUndefined then
           let change1 = (if isObject change then resolve_members h (data w) change
                          else change);
               w1 = w\<lparr>data := setProperty h (data w) p change1\<rparr>
           in if typeof_js change1 = ''string'' then logChange this p change1 w1 else w1
         else w)"

text \<open>
  \<open>applyAELike\<close>. The path resolver takes a string; a rule element whose path is not a
  string is an error here (the constructor has marked every such element as ignored, so
  the entry points never reach this case for it). The element is returned with the
  world, because line 80 stores the resolved path in the element's own data.
\<close>

datatype error = PathNotAString

text \<open>\<open>predicate && !predicate.test(this.actor.getRollOptions(["all"]))\<close>\<close>

definition predicate_fails :: "'t host \<Rightarrow> AELikeRuleElement \<Rightarrow> 't world \<Rightarrow> bool" where
  "predicate_fails h this w =
     (case predicate this of
        None \<Rightarrow> False
      | Some t \<Rightarrow> \<not> t (getRollOptions h (data w)))"

definition applyAELike ::
  "'t host \<Rightarrow> AELikeRuleElement \<Rightarrow> 't world \<Rightarrow> error + (AELikeRuleElement \<times> 't world)" where
  "applyAELike h this w =
     (if predicate_fails h this w then Inr (this, w)
      else
        case path this of
          JStr p0 \<Rightarrow>
            let p = resolveInjectedProperties h (data w) p0;
                this1 = this\<lparr>path := JStr p\<rparr>
            in if has_undefined_token p then Inr (this1, w)
               else
                 let change = resolveValue h (data w) (rvalue this1);
                     current = getProperty h (data w) p
                 in Inr (this1,
                      if mode this1 = JStr ''multiply'' then case_multiply h this1 p change current w
                      else if mode this1 = JStr ''add'' then case_add h this1 p change current w
                      else if mode this1 = JStr ''downgrade'' then case_downgrade h this1 p change current w
                      else if mode this1 = JStr ''upgrade'' then case_upgrade h this1 p change current w
                      else if mode this1 = JStr ''override'' then case_override h this1 p change w
                      else w)
        | _ \<Rightarrow> Inl PathNotAString)"

text \<open>The three entry points, one for each phase of the actor's data preparation.\<close>

definition onApplyActiveEffects ::
  "'t host \<Rightarrow> AELikeRuleElement \<Rightarrow> 't world \<Rightarrow> error + (AELikeRuleElement \<times> 't world)" where
  "onApplyActiveEffects h this w =
     (if \<not> ignored this \<and> phase this = ''applyAEs'' then applyAELike h this w
      else Inr (this, w))"

definition beforePrepareData ::
  "'t host \<Rightarrow> AELikeRuleElement \<Rightarrow> 't world \<Rightarrow> error + (AELikeRuleElement \<times> 't world)" where
  "beforePrepareData h this w =
     (if \<not> ignored this \<and> phase this = ''beforeDerived'' then applyAELike h this w
      else Inr (this, w))"

definition afterPrepareData ::
  "'t host \<Rightarrow> AELikeRuleElement \<Rightarrow> 't world \<Rightarrow> error + (AELikeRuleElement \<times> 't world)" where
  "afterPrepareData h this w =
     (if \<not> ignored this \<and> phase this = ''afterDerived'' then applyAELike h this w
      else Inr (this, w))"


text \<open>
  Modelled from the spec: the phase dispatcher, which calls the entry points at three
  fixed points of every data-preparation cycle, is not in src. A run is any sequence of
  entry-point calls on the same element; before each call the rest of the system may
  have changed the world in any way (other rules, a rebuilt change log, a new cycle).
  An error ends the run.
\<close>

datatype hook = ApplyAEs | BeforeDerived | AfterDerived

definition run_hook ::
  "'t host \<Rightarrow> hook \<Rightarrow> AELikeRuleElement \<Rightarrow> 't world \<Rightarrow> error + (AELikeRuleElement \<times> 't world)" where
  "run_hook h k this w =
     (case k of
        ApplyAEs \<Rightarrow> onApplyActiveEffects h this w
      | BeforeDerived \<Rightarrow> beforePrepareData h this w
      | AfterDerived \<Rightarrow> afterPrepareData h this w)"

fun run_hooks ::
  "'t host \<Rightarrow> (('t world \<Rightarrow> 't world) \<times> hook) list \<Rightarrow> AELikeRuleElement \<Rightarrow> 't world \<Rightarrow>
   error + (AELikeRuleElement \<times> 't world)" where
  "run_hooks h [] this w = Inr (this, w)"
| "run_hooks h ((g, k) # ks) this w =
     (case run_hook h k this (g w) of
        Inl e \<Rightarrow> Inl e
      | Inr (this', w') \<Rightarrow> run_hooks h ks this' w')"

text \<open>
  What an application left behind, read off its result: the element, the world, and the
  world's tree, log and console. An error stays an error.
\<close>

abbreviation element_after ::
  "error + (AELikeRuleElement \<times> 't world) \<Rightarrow> error + AELikeRuleElement" where
  "element_after r \<equiv> map_sum id fst r"

abbreviation world_after ::
  "error + (AELikeRuleElement \<times> 't world) \<Rightarrow> error + 't world" where
  "world_after r \<equiv> map_sum id snd r"

abbreviation tree_after ::
  "error + (AELikeRuleElement \<times> 't world) \<Rightarrow> error + 't" where
  "tree_after r \<equiv> map_sum id (data \<circ> snd) r"

abbreviation log_after ::
  "error + (AELikeRuleElement \<times> 't world) \<Rightarrow> error + (string \<rightharpoonup> AutoChangeEntry list)" where
  "log_after r \<equiv> map_sum id (autoChanges \<circ> snd) r"

abbreviation console_after ::
  "error + (AELikeRuleElement \<times> 't world) \<Rightarrow> error + string list" where
  "console_after r \<equiv> map_sum id (console \<circ> snd) r"


abbreviation path_after ::
  "error + (AELikeRuleElement \<times> 't world) \<Rightarrow> error + jsval" where
  "path_after r \<equiv> map_sum id (path \<circ> fst) r"

abbreviation mode_after ::
  "error + (AELikeRuleElement \<times> 't world) \<Rightarrow> error + jsval" where
  "mode_after r \<equiv> map_sum id (mode \<circ> fst) r"

abbreviation phase_after ::
  "error + (AELikeRuleElement \<times> 't world) \<Rightarrow> error + string" where
  "phase_after r \<equiv> map_sum id (phase \<circ> fst) r"

abbreviation priority_after ::
  "error + (AELikeRuleElement \<times> 't world) \<Rightarrow> error + jsnum" where
  "priority_after r \<equiv> map_sum id (priority \<circ> fst) r"

abbreviation ignored_after ::
  "error + (AELikeRuleElement \<times> 't world) \<Rightarrow> error + bool" where
  "ignored_after r \<equiv> map_sum id (ignored \<circ> fst) r"


abbreviation logged_values_after ::
  "string \<Rightarrow> error + (AELikeRuleElement \<times> 't world) \<Rightarrow> error + jsval list" where
  "logged_values_after p r \<equiv>
     map_sum id (\<lambda>x. map entry_value (entries_at (autoChanges (snd x)) p)) r"




section \<open>A host for the examples\<close>

text \<open>
  Modelled from the spec: the data tree accessor ("get-by-path and set-by-path over a
  nested keyed structure"), the placeholder resolver and the roll options are supplied by
  the host and are not in src. The theorems below hold for every host; this one gives the
  examples something to run on. Its tree is a JavaScript value, a path is split at its
  dots and walked through the objects, and a write creates the objects that are missing
  on the way.
\<close>

fun split_dots :: "string \<Rightarrow> string \<Rightarrow> string list" where
  "split_dots seg [] = [rev seg]"
| "split_dots seg (c # cs) =
     (if c = CHR ''.'' then rev seg # split_dots [] cs else split_dots (c # seg) cs)"

fun get_path :: "jsval \<Rightarrow> string list \<Rightarrow> jsval" where
  "get_path v [] = v"
| "get_path (JObj kvs) (k # ks) =
     (case map_of kvs k of None \<Rightarrow> JUndefined | Some v \<Rightarrow> get_path v ks)"
| "get_path v (k # ks) = JUndefined"

fun put_key :: "string \<Rightarrow> jsval \<Rightarrow> (string \<times> jsval) list \<Rightarrow> (string \<times> jsval) list" where
  "put_key k x [] = [(k, x)]"
| "put_key k x ((k', v) # kvs) = (if k' = k then (k, x) # kvs else (k', v) # put_key k x kvs)"

fun set_path :: "jsval \<Rightarrow> string list \<Rightarrow> jsval \<Rightarrow> jsval" where
  "set_path v [] x = x"
| "set_path (JObj kvs) (k # ks) x =
     JObj (put_key k (set_path (case map_of kvs k of None \<Rightarrow> JObj [] | Some v \<Rightarrow> v) ks x) kvs)"
| "set_path v (k # ks) x = v"

definition example_resolve :: "string \<Rightarrow> string" where
  "example_resolve s =
     (case map_of [(''skills.{item|slug}.rank'', ''skills.stealth.rank''),
                   (''{item|flags.target}.value'', ''undefined.value''),
                   (''{item|name}'', ''Toughness'')] s of
        Some r \<Rightarrow> r
      | None \<Rightarrow> s)"

definition example_host :: "jsval host" where
  "example_host =
     \<lparr>getProperty = (\<lambda>t p. get_path t (split_dots [] p)),
      setProperty = (\<lambda>t p x. set_path t (split_dots [] p) x),
      getRollOptions = (\<lambda>t. [''self:trait:human'']),
      resolveInjectedProperties = (\<lambda>t s. example_resolve s),
      resolveValue = (\<lambda>t v. case v of JStr s \<Rightarrow> JStr (example_resolve s) | _ \<Rightarrow> v)\<rparr>"

definition example_item :: item_data where
  "example_item =
     \<lparr>item_name = ''Toughness'', item_uuid = ''Actor.a1.Item.i1'', is_feat = True,
      location = Some ''general-3'', item_level = Some (JNum (Fin 1))\<rparr>"

definition example_tree :: jsval where
  "example_tree =
     JObj [(''attributes'', JObj [(''hp'', JObj [(''max'', JNum (Fin 5))])]),
           (''traits'', JObj [(''numbers'', JArr [JNum (Fin 1), JNum (Fin 2)]),
                             (''names'', JArr [JStr ''a''])]),
           (''details'', JObj [(''title'', JStr ''x'')])]"

definition example_world :: "jsval world" where
  "example_world = \<lparr>data = example_tree, autoChanges = Map.empty, console = []\<rparr>"

text \<open>A rule element as the constructor leaves a valid source: not ignored, default phase.\<close>

definition example_rule :: "string \<Rightarrow> string \<Rightarrow> jsval \<Rightarrow> AELikeRuleElement" where
  "example_rule m p v =
     \<lparr>path = JStr p, mode = JStr m, rvalue = v, priority = default_priority (JStr m),
      phase = ''applyAEs'', predicate = None, ignored = False, item = example_item\<rparr>"

definition example_source :: "string \<Rightarrow> string \<Rightarrow> jsval \<Rightarrow> AELikeSource" where
  "example_source m p v =
     \<lparr>src_mode = JStr m, src_path = JStr p, src_value = v, src_priority = None,
      src_phase = None, src_predicate = None\<rparr>"


section \<open>Rounding is exact on the doubles\<close>

text \<open>
  The exponent that \<open>floor_log2\<close> computes is the binade of its argument, and a value
  \<open>m * 2 ^ e\<close> with \<open>\<bar>m\<bar> < 2 ^ 53\<close>, \<open>- 1074 \<le> e\<close> and magnitude below \<open>2 ^ 1024\<close> (these are
  the finite doubles) is rounded to itself. So an operation whose exact result is a
  double returns that result; in particular the integers below \<open>2 ^ 53\<close> are exact.
\<close>

lemma powi_nat: "0 \<le> k \<Longrightarrow> (2::rat) powi k = 2 ^ nat k"
  by (simp add: power_int_def)

lemma quotient_of_pos:
  assumes "0 < x" and "quotient_of x = (p, q)"
  shows "0 < p" and "0 < q" and "x = of_int p / of_int q"
proof -
  show q: "0 < q" using assms(2) by (rule quotient_of_denom_pos)
  show x: "x = of_int p / of_int q" using assms(2) by (rule quotient_of_div)
  show "0 < p"
    using assms(1) q x by (simp add: zero_less_divide_iff)
qed

lemma bitlen_powi_bounds:
  assumes "0 < p"
  shows "(2::rat) powi (bitlen p - 1) \<le> of_int p" and "of_int p < (2::rat) powi bitlen p"
proof -
  have b: "1 \<le> bitlen p"
    using assms bitlen_eq_zero_iff [of p] bitlen_nonneg [of p] by linarith
  have "(2::int) ^ nat (bitlen p - 1) \<le> p" and "p < 2 ^ nat (bitlen p)"
    using bitlen_bounds [OF assms] by simp_all
  then have r: "(of_int (2 ^ nat (bitlen p - 1)) :: rat) \<le> of_int p"
    "(of_int p :: rat) < of_int (2 ^ nat (bitlen p))"
    by (simp_all only: of_int_le_iff of_int_less_iff)
  have e1: "(2::rat) powi (bitlen p - 1) = of_int (2 ^ nat (bitlen p - 1))"
    using b by (simp add: powi_nat)
  have e2: "(2::rat) powi bitlen p = of_int (2 ^ nat (bitlen p))"
    using b by (simp add: powi_nat)
  show "(2::rat) powi (bitlen p - 1) \<le> of_int p" and "of_int p < (2::rat) powi bitlen p"
    using r by (simp_all only: e1 e2)
qed

lemma floor_log2_le:
  assumes "0 < x"
  shows "2 powi floor_log2 x \<le> x"
proof -
  obtain p q where pq: "quotient_of x = (p, q)"
    by (cases "quotient_of x")
  note f = quotient_of_pos [OF assms pq]
  let ?d = "bitlen p - bitlen q"
  have lo: "(2::rat) powi (?d - 1) \<le> x"
  proof -
    have "(2::rat) powi (?d - 1) = 2 powi (bitlen p - 1) / 2 powi bitlen q"
      by (simp add: power_int_diff)
    also have "\<dots> \<le> of_int p / 2 powi bitlen q"
      using bitlen_powi_bounds(1) [OF f(1)] by (simp add: divide_right_mono)
    also have "\<dots> \<le> of_int p / of_int q"
      using bitlen_powi_bounds(2) [OF f(2)] f(1,2)
      by (intro divide_left_mono) (simp_all add: less_imp_le)
    finally show ?thesis using f(3) by simp
  qed
  show ?thesis
    using lo by (simp add: floor_log2_def pq Let_def)
qed


lemma floor_log2_less:
  assumes "0 < x"
  shows "x < 2 powi (floor_log2 x + 1)"
proof -
  obtain p q where pq: "quotient_of x = (p, q)"
    by (cases "quotient_of x")
  note f = quotient_of_pos [OF assms pq]
  let ?d = "bitlen p - bitlen q"
  have hi: "x < (2::rat) powi (?d + 1)"
  proof -
    have "of_int p / of_int q < (2::rat) powi bitlen p / of_int q"
      using bitlen_powi_bounds(2) [OF f(1)] f(2) by (simp add: divide_strict_right_mono)
    also have "\<dots> \<le> 2 powi bitlen p / 2 powi (bitlen q - 1)"
      using bitlen_powi_bounds(1) [OF f(2)] f(2)
      by (intro divide_left_mono) (simp_all add: zero_less_mult_iff)
    also have "\<dots> = 2 powi (bitlen p - (bitlen q - 1))"
      by (subst power_int_diff) simp_all
    also have "bitlen p - (bitlen q - 1) = ?d + 1"
      by simp
    finally show ?thesis using f(3) by simp
  qed
  show ?thesis
    using hi by (auto simp: floor_log2_def pq Let_def not_le)
qed

lemma round_half_even_of_int: "round_half_even (of_int n) = n"
  by (simp add: round_half_even_def)

lemma round64_exact:
  assumes "m \<noteq> 0" and "\<bar>m\<bar> < 2 ^ 53" and "- 1074 \<le> e"
    and "of_int \<bar>m\<bar> * 2 powi e < (2::rat) powi 1024"
  shows "round64 (of_int m * 2 powi e) = Fin (of_int m * 2 powi e)"
proof -
  let ?x = "of_int m * (2::rat) powi e"
  let ?a = "of_int \<bar>m\<bar> * (2::rat) powi e"
  have a: "\<bar>?x\<bar> = ?a"
    by (simp add: abs_mult)
  have apos: "0 < ?a"
    using assms(1) by simp
  let ?k = "floor_log2 ?a"
  have "2 powi ?k \<le> ?a"
    using floor_log2_le [OF apos] .
  also have "?a < 2 ^ 53 * 2 powi e"
  proof -
    have "(of_int \<bar>m\<bar> :: rat) < of_int (2 ^ 53)"
      using assms(2) by (simp only: of_int_less_iff)
    then show ?thesis by simp
  qed
  also have "\<dots> = (2::rat) powi (53 + e)"
    by (simp add: power_int_add)
  finally have lt: "(2::rat) powi ?k < 2 powi (53 + e)" .
  have "?k < 53 + e"
  proof (rule ccontr)
    assume "\<not> ?k < 53 + e"
    then have "(2::rat) powi (53 + e) \<le> 2 powi ?k"
      by (intro power_int_increasing) simp_all
    with lt show False by simp
  qed
  define e' where "e' = max (?k - 52) (- 1074)"
  have e': "e' \<le> e" "- 1074 \<le> e'"
    using \<open>?k < 53 + e\<close> assms(3) by (simp_all add: e'_def)
  define g where "g = nat (e - e')"
  have ee: "e = e' + int g"
    using e'(1) by (simp add: g_def)
  have q: "?a / 2 powi e' = of_int (\<bar>m\<bar> * 2 ^ g)"
    by (simp add: ee power_int_add)
  have m': "round_half_even (?a / 2 powi e') = \<bar>m\<bar> * 2 ^ g"
    unfolding q by (rule round_half_even_of_int)
  have r: "of_int (\<bar>m\<bar> * 2 ^ g) * 2 powi e' = ?a"
    by (simp add: ee power_int_add)
  have nz: "\<bar>m\<bar> * 2 ^ g \<noteq> 0"
    using assms(1) by simp
  have pos: "0 < (2::rat) powi e"
    by simp
  have sgn: "?x < 0 \<longleftrightarrow> m < 0"
  proof -
    have "\<not> (2::rat) powi e < 0"
      using pos by (simp add: not_less less_imp_le)
    then show ?thesis
      by (simp add: mult_less_0_iff)
  qed
  have xnz: "?x \<noteq> 0"
    using assms(1) by simp
  have small: "\<not> (2::rat) powi 1024 \<le> ?a"
    using assms(4) by (simp only: not_le)
  have "round64 ?x = Fin (if m < 0 then - ?a else ?a)"
    unfolding round64_def Let_def a e'_def [symmetric] m' r
    by (simp only: small nz xnz sgn if_False)
  also have "(if m < 0 then - ?a else ?a) = ?x"
    by simp
  finally show ?thesis .
qed

lemma round64_of_int:
  assumes "\<bar>n\<bar> < 2 ^ 53"
  shows "round64 (of_int n) = Fin (of_int n)"
proof (cases "n = 0")
  case True
  then show ?thesis by (simp add: round64_def)
next
  case False
  have "(of_int \<bar>n\<bar> :: rat) < of_int (2 ^ 53)"
    using assms by (simp only: of_int_less_iff)
  also have "(of_int (2 ^ 53) :: rat) \<le> 2 powi 1024"
    by simp
  finally have b: "of_int \<bar>n\<bar> * 2 powi 0 < (2::rat) powi 1024"
    by (simp only: power_int_0_right mult_1_right)
  have "round64 (of_int n * 2 powi 0) = Fin (of_int n * 2 powi 0)"
    by (rule round64_exact [OF False assms _ b]) simp
  then show ?thesis
    by (simp only: power_int_0_right mult_1_right)
qed


lemma round64_numeral:
  "numeral k < (2::int) ^ 53 \<Longrightarrow> round64 (numeral k) = Fin (numeral k)"
  using round64_of_int [of "numeral k"] by simp







section \<open>Construction: priority\<close>

lemma typeof_number_iff: "typeof_js v = ''number'' \<longleftrightarrow> (\<exists>n. v = JNum n)"
  by (cases v) auto

lemma default_priority_modes:
  "default_priority (JStr ''multiply'') = Fin 10"
  "default_priority (JStr ''add'') = Fin 20"
  "default_priority (JStr ''downgrade'') = Fin 30"
  "default_priority (JStr ''upgrade'') = Fin 40"
  "default_priority (JStr ''override'') = Fin 50"
  by (simp_all add: default_priority_def CHANGE_MODES_def indexOf_def)

lemma default_priority_unrecognized:
  "m \<notin> JStr ` set CHANGE_MODES \<Longrightarrow> default_priority m = NaN"
  by (auto simp: default_priority_def split: jsval.splits)

lemma construct_priority:
  "priority (fst (construct h src it w)) =
     (case src_priority src of Some p \<Rightarrow> p | None \<Rightarrow> default_priority (src_mode src))"
  by (simp add: construct_def Let_def RuleElementPF2e_def split: option.splits)

lemma construct_NaN:
  assumes "isNaN (case src_priority src of
                    Some p \<Rightarrow> p
                  | None \<Rightarrow> default_priority (src_mode src))"
  shows "ignored (fst (construct h src it w))" and "snd (construct h src it w) = w"
  using assms by (simp_all add: construct_def Let_def RuleElementPF2e_def split: option.splits)

text \<open>
  C4. A rule constructed without an explicit priority gets the priority 10, 20, 30, 40
  or 50 when its mode is multiply, add, downgrade, upgrade or override. For any other
  mode (a string outside the table, or a value that is not a string) the priority is
  \<open>NaN\<close>, the rule is ignored, and the constructor returns before the path and value
  checks: the world, and with it the console, is as it was.
\<close>

theorem construct_default_priority:
  assumes "src_priority src = None"
  shows "(src_mode src = JStr ''multiply'' \<longrightarrow> priority (fst (construct h src it w)) = Fin 10) \<and>
         (src_mode src = JStr ''add'' \<longrightarrow> priority (fst (construct h src it w)) = Fin 20) \<and>
         (src_mode src = JStr ''downgrade'' \<longrightarrow> priority (fst (construct h src it w)) = Fin 30) \<and>
         (src_mode src = JStr ''upgrade'' \<longrightarrow> priority (fst (construct h src it w)) = Fin 40) \<and>
         (src_mode src = JStr ''override'' \<longrightarrow> priority (fst (construct h src it w)) = Fin 50) \<and>
         (src_mode src \<notin> JStr ` set CHANGE_MODES \<longrightarrow>
            priority (fst (construct h src it w)) = NaN \<and>
            ignored (fst (construct h src it w)) \<and>
            snd (construct h src it w) = w)"
proof -
  have p: "priority (fst (construct h src it w)) = default_priority (src_mode src)"
    using assms by (simp add: construct_priority)
  have n: "src_mode src \<notin> JStr ` set CHANGE_MODES \<Longrightarrow>
             ignored (fst (construct h src it w)) \<and> snd (construct h src it w) = w"
    using assms construct_NaN [of src h it w] by (simp add: default_priority_unrecognized)
  show ?thesis
    using p n by (auto simp: default_priority_modes default_priority_unrecognized)
qed

theorem construct_default_priority_witness:
  "src_priority (example_source ''add'' ''attributes.hp.max'' (JNum (Fin 5))) = None \<and>
   src_mode (example_source ''add'' ''attributes.hp.max'' (JNum (Fin 5))) = JStr ''add'' \<and>
   priority (fst (construct example_host (example_source ''add'' ''attributes.hp.max'' (JNum (Fin 5)))
                    example_item example_world)) = Fin 20 \<and>
   src_priority (example_source ''subtract'' ''attributes.hp.max'' (JNum (Fin 5))) = None \<and>
   src_mode (example_source ''subtract'' ''attributes.hp.max'' (JNum (Fin 5)))
     \<notin> JStr ` set CHANGE_MODES \<and>
   priority (fst (construct example_host (example_source ''subtract'' ''attributes.hp.max'' (JNum (Fin 5)))
                    example_item example_world)) = NaN \<and>
   ignored (fst (construct example_host (example_source ''subtract'' ''attributes.hp.max'' (JNum (Fin 5)))
                    example_item example_world)) \<and>
   snd (construct example_host (example_source ''subtract'' ''attributes.hp.max'' (JNum (Fin 5)))
                    example_item example_world) = example_world"
  using construct_default_priority
          [of "example_source ''add'' ''attributes.hp.max'' (JNum (Fin 5))"
              example_host example_item example_world]
        construct_default_priority
          [of "example_source ''subtract'' ''attributes.hp.max'' (JNum (Fin 5))"
              example_host example_item example_world]
  by (simp add: example_source_def CHANGE_MODES_def)


section \<open>Applying: the steps of \<open>applyAELike\<close>\<close>

lemma logChange_data: "data (logChange this p v w) = data w"
  by (simp add: logChange_def Let_def)

lemma logChange_console: "console (logChange this p v w) = console w"
  by (simp add: logChange_def Let_def)

lemma logChange_number:
  "autoChanges (logChange this p (JNum n) w) =
     push_entry (autoChanges w) p
       \<lparr>entry_mode = mode this, entry_level = change_level (item this),
        entry_value = JNum n, entry_source = item_name (item this)\<rparr>"
  by (simp add: logChange_def Let_def)

lemma logChange_override:
  "mode this = JStr ''override'' \<Longrightarrow>
   autoChanges (logChange this p v w) =
     push_entry (autoChanges w) p
       \<lparr>entry_mode = mode this, entry_level = change_level (item this),
        entry_value = v, entry_source = item_name (item this)\<rparr>"
  by (simp add: logChange_def Let_def)

lemma logChange_string_skipped:
  "mode this \<noteq> JStr ''override'' \<Longrightarrow> logChange this p (JStr s) w = w"
  by (simp add: logChange_def)

lemma entries_at_push_entry:
  "entries_at (push_entry changes p e) p = entries_at changes p @ [e]"
  by (simp add: push_entry_def entries_at_def)

lemma warn_fields:
  "data (warn it q w) = data w"
  "autoChanges (warn it q w) = autoChanges w"
  "console (warn it q w) = console w @ [warn_message q it]"
  by (simp_all add: warn_def)

lemma applyAELike_predicate_fails:
  "predicate_fails h this w \<Longrightarrow> applyAELike h this w = Inr (this, w)"
  by (simp add: applyAELike_def)

lemma applyAELike_unresolved:
  assumes "\<not> predicate_fails h this w" and "path this = JStr p0"
    and "has_undefined_token (resolveInjectedProperties h (data w) p0)"
  shows "applyAELike h this w =
           Inr (this\<lparr>path := JStr (resolveInjectedProperties h (data w) p0)\<rparr>, w)"
  using assms by (simp add: applyAELike_def Let_def)

lemma applyAELike_multiply:
  assumes "\<not> predicate_fails h this w" and "path this = JStr p0"
    and "p = resolveInjectedProperties h (data w) p0" and "\<not> has_undefined_token p"
    and "mode this = JStr ''multiply''"
  shows "applyAELike h this w =
           Inr (this\<lparr>path := JStr p\<rparr>,
                case_multiply h (this\<lparr>path := JStr p\<rparr>) p
                  (resolveValue h (data w) (rvalue this)) (getProperty h (data w) p) w)"
  using assms by (simp add: applyAELike_def Let_def)

lemma applyAELike_add:
  assumes "\<not> predicate_fails h this w" and "path this = JStr p0"
    and "p = resolveInjectedProperties h (data w) p0" and "\<not> has_undefined_token p"
    and "mode this = JStr ''add''"
  shows "applyAELike h this w =
           Inr (this\<lparr>path := JStr p\<rparr>,
                case_add h (this\<lparr>path := JStr p\<rparr>) p
                  (resolveValue h (data w) (rvalue this)) (getProperty h (data w) p) w)"
  using assms by (simp add: applyAELike_def Let_def)

lemma applyAELike_downgrade:
  assumes "\<not> predicate_fails h this w" and "path this = JStr p0"
    and "p = resolveInjectedProperties h (data w) p0" and "\<not> has_undefined_token p"
    and "mode this = JStr ''downgrade''"
  shows "applyAELike h this w =
           Inr (this\<lparr>path := JStr p\<rparr>,
                case_downgrade h (this\<lparr>path := JStr p\<rparr>) p
                  (resolveValue h (data w) (rvalue this)) (getProperty h (data w) p) w)"
  using assms by (simp add: applyAELike_def Let_def)

lemma applyAELike_upgrade:
  assumes "\<not> predicate_fails h this w" and "path this = JStr p0"
    and "p = resolveInjectedProperties h (data w) p0" and "\<not> has_undefined_token p"
    and "mode this = JStr ''upgrade''"
  shows "applyAELike h this w =
           Inr (this\<lparr>path := JStr p\<rparr>,
                case_upgrade h (this\<lparr>path := JStr p\<rparr>) p
                  (resolveValue h (data w) (rvalue this)) (getProperty h (data w) p) w)"
  using assms by (simp add: applyAELike_def Let_def)

lemma applyAELike_override:
  assumes "\<not> predicate_fails h this w" and "path this = JStr p0"
    and "p = resolveInjectedProperties h (data w) p0" and "\<not> has_undefined_token p"
    and "mode this = JStr ''override''"
  shows "applyAELike h this w =
           Inr (this\<lparr>path := JStr p\<rparr>,
                case_override h (this\<lparr>path := JStr p\<rparr>) p
                  (resolveValue h (data w) (rvalue this)) w)"
  using assms by (simp add: applyAELike_def Let_def)

text \<open>What a numeric write leaves behind: the value at the path and one more entry.\<close>

lemma case_multiply_numeric:
  assumes "typeof_js current = ''number'' \<or> current = JUndefined"
  shows "case_multiply h this p (JNum v) current w =
           logChange this p (JNum v)
             (w\<lparr>data := setProperty h (data w) p (JNum (js_times (nullish_num current (Fin 0)) v))\<rparr>)"
  using assms by (auto simp: case_multiply_def Let_def)

lemma case_downgrade_numeric:
  assumes "typeof_js current = ''number'' \<or> current = JUndefined"
  shows "case_downgrade h this p (JNum v) current w =
           logChange this p (JNum v)
             (w\<lparr>data := setProperty h (data w) p (JNum (Math_min (nullish_num current (Fin 0)) v))\<rparr>)"
  using assms by (auto simp: case_downgrade_def Let_def)

lemma case_upgrade_numeric:
  assumes "typeof_js current = ''number'' \<or> current = JUndefined"
  shows "case_upgrade h this p (JNum v) current w =
           logChange this p (JNum v)
             (w\<lparr>data := setProperty h (data w) p (JNum (Math_max (nullish_num current (Fin 0)) v))\<rparr>)"
  using assms by (auto simp: case_upgrade_def Let_def)

lemma case_add_numeric:
  assumes "typeof_js current = ''number'' \<or> current = JUndefined \<or> current = JNull"
  shows "case_add h this p (JNum v) current w =
           logChange this p (JNum v)
             (w\<lparr>data := setProperty h (data w) p (JNum (js_plus (nullish_num current (Fin 0)) v))\<rparr>)"
  using assms by (auto simp: case_add_def Let_def)

lemma case_add_array:
  "case_add h this p change (JArr xs) w = array_add h this p change (JArr xs) w"
  by (simp add: case_add_def split: jsval.splits)

lemma entry_points_run:
  "\<not> ignored this \<and> phase this = ''applyAEs'' \<Longrightarrow>
     onApplyActiveEffects h this w = applyAELike h this w"
  "\<not> ignored this \<and> phase this = ''beforeDerived'' \<Longrightarrow>
     beforePrepareData h this w = applyAELike h this w"
  "\<not> ignored this \<and> phase this = ''afterDerived'' \<Longrightarrow>
     afterPrepareData h this w = applyAELike h this w"
  by (simp_all add: onApplyActiveEffects_def beforePrepareData_def afterPrepareData_def)


section \<open>The numeric modes\<close>





section \<open>Facts about the example host\<close>

lemma example_rule_fields:
  "path (example_rule m q x) = JStr q"
  "mode (example_rule m q x) = JStr m"
  "rvalue (example_rule m q x) = x"
  "\<not> ignored (example_rule m q x)"
  "phase (example_rule m q x) = ''applyAEs''"
  "predicate (example_rule m q x) = None"
  "item (example_rule m q x) = example_item"
  "priority (example_rule m q x) = default_priority (JStr m)"
  by (simp_all add: example_rule_def)

lemma example_predicate: "\<not> predicate_fails h (example_rule m q x) w"
  by (simp add: predicate_fails_def example_rule_def)

lemma example_host_fields:
  "getProperty example_host t p = get_path t (split_dots [] p)"
  "setProperty example_host t p x = set_path t (split_dots [] p) x"
  "getRollOptions example_host t = [''self:trait:human'']"
  "resolveInjectedProperties example_host t s = example_resolve s"
  "resolveValue example_host t (JNum n) = JNum n"
  "resolveValue example_host t (JObj kvs) = JObj kvs"
  "resolveValue example_host t (JStr s) = JStr (example_resolve s)"
  by (simp_all add: example_host_def)

lemma example_world_fields:
  "data example_world = example_tree"
  "autoChanges example_world = Map.empty"
  "console example_world = []"
  by (simp_all add: example_world_def)

section \<open>Construction: the path check\<close>

lemma pathIsValid_string: "pathIsValid h t (JStr p)"
  by (simp add: pathIsValid_def)

lemma construct_string_path:
  assumes "src_path src = JStr p"
    and "\<not> isNaN (case src_priority src of Some n \<Rightarrow> n | None \<Rightarrow> default_priority (src_mode src))"
    and "valueIsValid (src_value src)"
  shows "\<not> ignored (fst (construct h src it w))" and "snd (construct h src it w) = w"
  using assms
  by (simp_all add: construct_def Let_def RuleElementPF2e_def pathIsValid_string split: option.splits)

lemma construct_not_ignored_path:
  "\<not> ignored (fst (construct h src it w)) \<Longrightarrow> \<exists>p. path (fst (construct h src it w)) = JStr p"
  by (auto simp: construct_def Let_def RuleElementPF2e_def pathIsValid_def
           split: option.splits if_splits jsval.splits)

text \<open>
  C1. The claim asks that a rule with a recognised mode is warned about (\<open>warn("path")\<close>)
  and ignored when neither its path, nor the path without its last segment, nor the path
  without its last two segments resolves to a defined value. The constructor's test
  \<open>typeof getProperty(actor.data, path) !== undefined\<close> compares a string with the value
  \<open>undefined\<close>, so it holds of every path (\<open>pathIsValid_string\<close>). Here the rule
  \<open>{mode: "add", path: "no.such.field", value: 1}\<close> is constructed on a tree in which
  \<open>no.such.field\<close>, \<open>no.such\<close> and \<open>no\<close> are all undefined: it is not ignored and
  the console stays empty.
\<close>

theorem construct_accepts_unresolvable_path:
  "getProperty example_host (data example_world) ''no.such.field'' = JUndefined \<and>
   getProperty example_host (data example_world) (strip_last_segment ''no.such.field'') = JUndefined \<and>
   getProperty example_host (data example_world) (strip_last_two_segments ''no.such.field'') = JUndefined \<and>
   strip_last_segment ''no.such.field'' = ''no.such'' \<and>
   strip_last_two_segments ''no.such.field'' = ''no'' \<and>
   priority (fst (construct example_host (example_source ''add'' ''no.such.field'' (JNum (Fin 1)))
                    example_item example_world)) = Fin 20 \<and>
   \<not> ignored (fst (construct example_host (example_source ''add'' ''no.such.field'' (JNum (Fin 1)))
                      example_item example_world)) \<and>
   console (snd (construct example_host (example_source ''add'' ''no.such.field'' (JNum (Fin 1)))
                   example_item example_world)) = []"
proof -
  have s1: "strip_last_segment ''no.such.field'' = ''no.such''"
    by (simp add: strip_last_segment_def word_char_def)
  have s2: "strip_last_two_segments ''no.such.field'' = ''no''"
    by (simp add: strip_last_two_segments_def word_char_def)
  have g: "getProperty example_host (data example_world) ''no.such.field'' = JUndefined"
          "getProperty example_host (data example_world) ''no.such'' = JUndefined"
          "getProperty example_host (data example_world) ''no'' = JUndefined"
    by (simp_all add: example_host_fields example_world_fields example_tree_def)
  have c: "construct example_host (example_source ''add'' ''no.such.field'' (JNum (Fin 1)))
             example_item example_world =
           (example_rule ''add'' ''no.such.field'' (JNum (Fin 1)), example_world)"
    by (simp add: construct_def Let_def RuleElementPF2e_def pathIsValid_def valueIsValid_def
                  example_source_def example_rule_def default_priority_modes)
  show ?thesis
    using g by (simp add: s1 s2 c example_rule_def example_world_fields default_priority_modes)
qed

section \<open>Skipped applications\<close>

text \<open>
  C9. When the predicate is present and its test on the actor's roll options is false,
  \<open>applyAELike\<close> returns the element and the world as they were. When the predicate does
  not fail and the resolved path holds an \<open>undefined\<close> token, the world is as it was:
  the tree is unchanged, the log has no new entry and the console no new warning.
\<close>

theorem silent_skip:
  "(predicate this = Some t \<and> \<not> t (getRollOptions h (data w)) \<longrightarrow>
      applyAELike h this w = Inr (this, w)) \<and>
   (\<not> predicate_fails h this w \<and> path this = JStr p0 \<and>
    has_undefined_token (resolveInjectedProperties h (data w) p0) \<longrightarrow>
      world_after (applyAELike h this w) = Inr w)"
proof -
  have "applyAELike h this w = Inr (this, w)"
    if "predicate this = Some t" "\<not> t (getRollOptions h (data w))"
    using that by (simp add: applyAELike_predicate_fails predicate_fails_def)
  moreover have "world_after (applyAELike h this w) = Inr w"
    if "\<not> predicate_fails h this w" "path this = JStr p0"
       "has_undefined_token (resolveInjectedProperties h (data w) p0)"
    using applyAELike_unresolved [OF that] by simp
  ultimately show ?thesis by blast
qed

theorem silent_skip_witness:
  "predicate ((example_rule ''add'' ''attributes.hp.max'' (JNum (Fin 2)))
               \<lparr>predicate := Some (\<lambda>opts. ''self:trait:elf'' \<in> set opts)\<rparr>) =
     Some (\<lambda>opts. ''self:trait:elf'' \<in> set opts) \<and>
   ''self:trait:elf'' \<notin> set (getRollOptions example_host (data example_world)) \<and>
   applyAELike example_host
     ((example_rule ''add'' ''attributes.hp.max'' (JNum (Fin 2)))
        \<lparr>predicate := Some (\<lambda>opts. ''self:trait:elf'' \<in> set opts)\<rparr>) example_world =
     Inr ((example_rule ''add'' ''attributes.hp.max'' (JNum (Fin 2)))
            \<lparr>predicate := Some (\<lambda>opts. ''self:trait:elf'' \<in> set opts)\<rparr>, example_world) \<and>
   \<not> predicate_fails example_host
       (example_rule ''add'' ''{item|flags.target}.value'' (JNum (Fin 2))) example_world \<and>
   path (example_rule ''add'' ''{item|flags.target}.value'' (JNum (Fin 2))) =
     JStr ''{item|flags.target}.value'' \<and>
   has_undefined_token
     (resolveInjectedProperties example_host (data example_world) ''{item|flags.target}.value'') \<and>
   world_after (applyAELike example_host
       (example_rule ''add'' ''{item|flags.target}.value'' (JNum (Fin 2))) example_world) =
     Inr example_world"
proof -
  have tok: "has_undefined_token
     (resolveInjectedProperties example_host (data example_world) ''{item|flags.target}.value'')"
    by (simp add: example_host_fields example_resolve_def has_undefined_token_def word_char_def)
  have opts: "''self:trait:elf'' \<notin> set (getRollOptions example_host (data example_world))"
    by (simp add: example_host_fields)
  have a: "applyAELike example_host
     ((example_rule ''add'' ''attributes.hp.max'' (JNum (Fin 2)))
        \<lparr>predicate := Some (\<lambda>opts. ''self:trait:elf'' \<in> set opts)\<rparr>) example_world =
     Inr ((example_rule ''add'' ''attributes.hp.max'' (JNum (Fin 2)))
            \<lparr>predicate := Some (\<lambda>opts. ''self:trait:elf'' \<in> set opts)\<rparr>, example_world)"
    using silent_skip [of "(example_rule ''add'' ''attributes.hp.max'' (JNum (Fin 2)))
                             \<lparr>predicate := Some (\<lambda>opts. ''self:trait:elf'' \<in> set opts)\<rparr>"
                          "\<lambda>opts. ''self:trait:elf'' \<in> set opts" example_host example_world]
          opts
    by simp
  have b: "world_after (applyAELike example_host
       (example_rule ''add'' ''{item|flags.target}.value'' (JNum (Fin 2))) example_world) =
     Inr example_world"
    using silent_skip [of "example_rule ''add'' ''{item|flags.target}.value'' (JNum (Fin 2))"
                          _ example_host example_world "''{item|flags.target}.value''"]
          tok
    by (simp add: example_predicate example_rule_fields)
  show ?thesis
    using tok opts a b by (simp add: example_predicate example_rule_fields)
qed


section \<open>The element after an application\<close>

lemma applyAELike_element:
  "path this = JStr p0 \<Longrightarrow>
   element_after (applyAELike h this w) =
     Inr (if predicate_fails h this w then this
          else this\<lparr>path := JStr (resolveInjectedProperties h (data w) p0)\<rparr>)"
  by (simp add: applyAELike_def Let_def)

lemma onApplyActiveEffects_element:
  "ignored this \<or> path this = JStr p0 \<Longrightarrow>
   element_after (onApplyActiveEffects h this w) =
     Inr (if \<not> ignored this \<and> phase this = ''applyAEs'' \<and> \<not> predicate_fails h this w
          then this\<lparr>path := JStr (resolveInjectedProperties h (data w) p0)\<rparr> else this)"
  using applyAELike_element [of this p0 h w] by (auto simp: onApplyActiveEffects_def)

lemma beforePrepareData_element:
  "ignored this \<or> path this = JStr p0 \<Longrightarrow>
   element_after (beforePrepareData h this w) =
     Inr (if \<not> ignored this \<and> phase this = ''beforeDerived'' \<and> \<not> predicate_fails h this w
          then this\<lparr>path := JStr (resolveInjectedProperties h (data w) p0)\<rparr> else this)"
  using applyAELike_element [of this p0 h w] by (auto simp: beforePrepareData_def)

lemma afterPrepareData_element:
  "ignored this \<or> path this = JStr p0 \<Longrightarrow>
   element_after (afterPrepareData h this w) =
     Inr (if \<not> ignored this \<and> phase this = ''afterDerived'' \<and> \<not> predicate_fails h this w
          then this\<lparr>path := JStr (resolveInjectedProperties h (data w) p0)\<rparr> else this)"
  using applyAELike_element [of this p0 h w] by (auto simp: afterPrepareData_def)

lemma after_of_element:
  assumes "element_after r = Inr e"
  shows "ignored_after r = Inr (ignored e)" and "phase_after r = Inr (phase e)"
    and "mode_after r = Inr (mode e)" and "priority_after r = Inr (priority e)"
    and "path_after r = Inr (path e)"
  using assms by (cases r; simp)+

lemma run_hook_element:
  assumes "ignored this \<or> path this = JStr p0"
  shows "\<exists>this' w'. run_hook h k this w = Inr (this', w') \<and>
           ignored this' = ignored this \<and> phase this' = phase this \<and>
           (ignored this' \<or> (\<exists>q. path this' = JStr q))"
proof -
  have "\<exists>q. element_after (run_hook h k this w) =
          Inr (if q = None then this else this\<lparr>path := JStr (the q)\<rparr>)"
  proof (cases k)
    case ApplyAEs
    show ?thesis
      using onApplyActiveEffects_element [OF assms, of h w]
      by (simp add: run_hook_def ApplyAEs) (metis option.sel option.simps(3))
  next
    case BeforeDerived
    show ?thesis
      using beforePrepareData_element [OF assms, of h w]
      by (simp add: run_hook_def BeforeDerived) (metis option.sel option.simps(3))
  next
    case AfterDerived
    show ?thesis
      using afterPrepareData_element [OF assms, of h w]
      by (simp add: run_hook_def AfterDerived) (metis option.sel option.simps(3))
  qed
  then obtain q where q: "element_after (run_hook h k this w) =
          Inr (if q = None then this else this\<lparr>path := JStr (the q)\<rparr>)"
    by blast
  then obtain this' w' where r: "run_hook h k this w = Inr (this', w')"
    by (cases "run_hook h k this w") auto
  with q have "this' = (if q = None then this else this\<lparr>path := JStr (the q)\<rparr>)"
    by simp
  with r assms show ?thesis
    by (cases "q = None") auto
qed

lemma run_hooks_ignored:
  "ignored this \<or> (\<exists>p. path this = JStr p) \<Longrightarrow>
   ignored_after (run_hooks h ks this w) = Inr (ignored this) \<and>
   phase_after (run_hooks h ks this w) = Inr (phase this)"
proof (induction ks arbitrary: this w)
  case Nil
  show ?case by simp
next
  case (Cons gk ks)
  obtain g k where gk: "gk = (g, k)"
    by (cases gk)
  from Cons.prems obtain p0 where "ignored this \<or> path this = JStr p0"
    by blast
  from run_hook_element [OF this, of h k "g w"]
  obtain this' w' where step: "run_hook h k this (g w) = Inr (this', w')"
    and same: "ignored this' = ignored this" "phase this' = phase this"
    and inv: "ignored this' \<or> (\<exists>q. path this' = JStr q)"
    by blast
  show ?case
    using Cons.IH [OF inv, of w'] step same by (simp add: gk)
qed


section \<open>The ignored flag\<close>

text \<open>
  C8. No application sets \<open>ignored\<close>. For \<open>applyAELike\<close> on an element whose path is a
  string, and for the three entry points on an element that is ignored or has a string
  path (every constructed element is one or the other), the result is an element with
  the same \<open>ignored\<close> flag and the same phase, whatever happened on the way: a failing
  predicate, an unresolved path token or a mode whose precondition does not hold. The
  same holds after any run of entry-point calls on a constructed element, whatever the
  world is at each call: an element that the constructor did not ignore is still not
  ignored, and still in its phase, on every later cycle.
\<close>

theorem apply_keeps_ignored:
  "(path this = JStr p0 \<longrightarrow>
      ignored_after (applyAELike h this w) = Inr (ignored this) \<and>
      phase_after (applyAELike h this w) = Inr (phase this)) \<and>
   (ignored this \<or> path this = JStr p0 \<longrightarrow>
      ignored_after (onApplyActiveEffects h this w) = Inr (ignored this) \<and>
      phase_after (onApplyActiveEffects h this w) = Inr (phase this) \<and>
      ignored_after (beforePrepareData h this w) = Inr (ignored this) \<and>
      phase_after (beforePrepareData h this w) = Inr (phase this) \<and>
      ignored_after (afterPrepareData h this w) = Inr (ignored this) \<and>
      phase_after (afterPrepareData h this w) = Inr (phase this)) \<and>
   (this = fst (construct h0 src it w0) \<longrightarrow>
      ignored_after (onApplyActiveEffects h this w) = Inr (ignored this) \<and>
      ignored_after (beforePrepareData h this w) = Inr (ignored this) \<and>
      ignored_after (afterPrepareData h this w) = Inr (ignored this) \<and>
      ignored_after (run_hooks h ks this w) = Inr (ignored this) \<and>
      phase_after (run_hooks h ks this w) = Inr (phase this))"
proof -
  have a: "ignored_after (applyAELike h this w) = Inr (ignored this) \<and>
           phase_after (applyAELike h this w) = Inr (phase this)"
    if "path this = JStr p0" for p0
    using after_of_element(1,2) [OF applyAELike_element [OF that, of h w]] by simp
  have e: "ignored_after (onApplyActiveEffects h this w) = Inr (ignored this) \<and>
           phase_after (onApplyActiveEffects h this w) = Inr (phase this) \<and>
           ignored_after (beforePrepareData h this w) = Inr (ignored this) \<and>
           phase_after (beforePrepareData h this w) = Inr (phase this) \<and>
           ignored_after (afterPrepareData h this w) = Inr (ignored this) \<and>
           phase_after (afterPrepareData h this w) = Inr (phase this)"
    if "ignored this \<or> path this = JStr p0" for p0
    using after_of_element(1,2) [OF onApplyActiveEffects_element [OF that, of h w]]
          after_of_element(1,2) [OF beforePrepareData_element [OF that, of h w]]
          after_of_element(1,2) [OF afterPrepareData_element [OF that, of h w]]
    by simp
  have c: "\<exists>p. ignored this \<or> path this = JStr p" if "this = fst (construct h0 src it w0)"
    using that construct_not_ignored_path [of h0 src it w0] by auto
  have r: "ignored_after (run_hooks h ks this w) = Inr (ignored this) \<and>
           phase_after (run_hooks h ks this w) = Inr (phase this)"
    if "this = fst (construct h0 src it w0)"
    using c [OF that] run_hooks_ignored [of this h ks w] by blast
  show ?thesis
    using a [of p0] e [of p0] e c r by blast
qed


lemma example_construct:
  "m \<in> set CHANGE_MODES \<Longrightarrow> valueIsValid x \<Longrightarrow>
   construct example_host (example_source m q x) example_item example_world =
     (example_rule m q x, example_world)"
  by (auto simp: construct_def Let_def RuleElementPF2e_def pathIsValid_string
                 example_source_def example_rule_def default_priority_def)

lemma example_multiply_mismatch:
  "world_after (applyAELike example_host
      (example_rule ''multiply'' ''details.title'' (JNum (Fin 2))) example_world) =
   Inr (example_world\<lparr>console := [warn_message ''path'' example_item]\<rparr>)"
proof -
  have tok: "\<not> has_undefined_token ''details.title''"
    by (simp add: has_undefined_token_def word_char_def)
  have cur: "getProperty example_host example_tree ''details.title'' = JStr ''x''"
    by (simp add: example_host_fields example_tree_def)
  show ?thesis
    using applyAELike_multiply
            [of example_host "example_rule ''multiply'' ''details.title'' (JNum (Fin 2))"
                example_world "''details.title''" "''details.title''"]
    by (simp add: example_predicate example_rule_fields example_host_fields(4,5) example_resolve_def
                  tok cur case_multiply_def warn_def example_world_fields)
qed

theorem apply_keeps_ignored_witness:
  "path (example_rule ''multiply'' ''details.title'' (JNum (Fin 2))) = JStr ''details.title'' \<and>
   fst (construct example_host (example_source ''multiply'' ''details.title'' (JNum (Fin 2)))
          example_item example_world) =
     example_rule ''multiply'' ''details.title'' (JNum (Fin 2)) \<and>
   \<not> ignored (example_rule ''multiply'' ''details.title'' (JNum (Fin 2))) \<and>
   console_after (onApplyActiveEffects example_host
       (example_rule ''multiply'' ''details.title'' (JNum (Fin 2))) example_world) =
     Inr [warn_message ''path'' example_item] \<and>
   ignored_after (applyAELike example_host
       (example_rule ''multiply'' ''details.title'' (JNum (Fin 2))) example_world) = Inr False \<and>
   ignored_after (onApplyActiveEffects example_host
       (example_rule ''multiply'' ''details.title'' (JNum (Fin 2))) example_world) = Inr False \<and>
   phase_after (onApplyActiveEffects example_host
       (example_rule ''multiply'' ''details.title'' (JNum (Fin 2))) example_world) = Inr ''applyAEs'' \<and>
   ignored_after (beforePrepareData example_host
       (example_rule ''multiply'' ''details.title'' (JNum (Fin 2))) example_world) = Inr False \<and>
   ignored_after (afterPrepareData example_host
       (example_rule ''multiply'' ''details.title'' (JNum (Fin 2))) example_world) = Inr False \<and>
   ignored_after (run_hooks example_host [(id, ApplyAEs), (id, BeforeDerived), (id, ApplyAEs)]
       (example_rule ''multiply'' ''details.title'' (JNum (Fin 2))) example_world) = Inr False"
proof -
  have c: "fst (construct example_host (example_source ''multiply'' ''details.title'' (JNum (Fin 2)))
            example_item example_world) =
     example_rule ''multiply'' ''details.title'' (JNum (Fin 2))"
    by (simp add: example_construct CHANGE_MODES_def valueIsValid_def)
  have w: "console_after (onApplyActiveEffects example_host
       (example_rule ''multiply'' ''details.title'' (JNum (Fin 2))) example_world) =
     Inr [warn_message ''path'' example_item]"
    using example_multiply_mismatch
    by (simp add: entry_points_run example_rule_fields sum.map_comp comp_def
             del: map_sum.simps)
       (cases "applyAELike example_host
                 (example_rule ''multiply'' ''details.title'' (JNum (Fin 2))) example_world"; auto)
  have k: "ignored_after (applyAELike example_host
       (example_rule ''multiply'' ''details.title'' (JNum (Fin 2))) example_world) = Inr False \<and>
     ignored_after (onApplyActiveEffects example_host
       (example_rule ''multiply'' ''details.title'' (JNum (Fin 2))) example_world) = Inr False \<and>
     phase_after (onApplyActiveEffects example_host
       (example_rule ''multiply'' ''details.title'' (JNum (Fin 2))) example_world) = Inr ''applyAEs'' \<and>
     ignored_after (beforePrepareData example_host
       (example_rule ''multiply'' ''details.title'' (JNum (Fin 2))) example_world) = Inr False \<and>
     ignored_after (afterPrepareData example_host
       (example_rule ''multiply'' ''details.title'' (JNum (Fin 2))) example_world) = Inr False \<and>
     ignored_after (run_hooks example_host [(id, ApplyAEs), (id, BeforeDerived), (id, ApplyAEs)]
       (example_rule ''multiply'' ''details.title'' (JNum (Fin 2))) example_world) = Inr False"
    using apply_keeps_ignored
            [where this = "example_rule ''multiply'' ''details.title'' (JNum (Fin 2))"
               and ?p0.0 = "''details.title''" and h = example_host and w = example_world
               and ?h0.0 = example_host and ?w0.0 = example_world and it = example_item
               and src = "example_source ''multiply'' ''details.title'' (JNum (Fin 2))"
               and ks = "[(id, ApplyAEs), (id, BeforeDerived), (id, ApplyAEs)]"]
    by (simp add: example_rule_fields c)
  show ?thesis
    using c w k by (simp add: example_rule_fields)
qed


section \<open>The element's own record\<close>

text \<open>
  C3, as stated, fails: line 80 stores the resolved path in the element's own data. The
  rule with the path \<open>skills.{item|slug}.rank\<close> holds the path \<open>skills.stealth.rank\<close>
  after its entry point has run.
\<close>

theorem apply_overwrites_path:
  "\<not> ignored (example_rule ''add'' ''skills.{item|slug}.rank'' (JNum (Fin 3))) \<and>
   phase (example_rule ''add'' ''skills.{item|slug}.rank'' (JNum (Fin 3))) = ''applyAEs'' \<and>
   path (example_rule ''add'' ''skills.{item|slug}.rank'' (JNum (Fin 3))) =
     JStr ''skills.{item|slug}.rank'' \<and>
   path_after (onApplyActiveEffects example_host
       (example_rule ''add'' ''skills.{item|slug}.rank'' (JNum (Fin 3))) example_world) =
     Inr (JStr ''skills.stealth.rank'')"
  using after_of_element(5)
          [OF onApplyActiveEffects_element
                [of "example_rule ''add'' ''skills.{item|slug}.rank'' (JNum (Fin 3))"
                    "''skills.{item|slug}.rank''" example_host example_world]]
  by (simp add: example_rule_fields example_predicate example_host_fields(4) example_resolve_def)

text \<open>
  C3, amended. Every application (\<open>applyAELike\<close> and the three entry points) leaves the
  element's mode, phase and priority as they were. The stored path is replaced by its
  resolved form whenever \<open>applyAELike\<close> runs and the predicate does not fail, and is
  unchanged otherwise. Nothing is said about the stored value: the override case
  resolves the string members of the object that \<open>resolveValue\<close> returned, in place, and
  whether that object is the stored one is decided by \<open>resolveValue\<close>, a parameter here.
\<close>

theorem apply_keeps_mode_phase_priority:
  "(path this = JStr p0 \<longrightarrow>
      mode_after (applyAELike h this w) = Inr (mode this) \<and>
      phase_after (applyAELike h this w) = Inr (phase this) \<and>
      priority_after (applyAELike h this w) = Inr (priority this) \<and>
      path_after (applyAELike h this w) =
        Inr (JStr (if predicate_fails h this w then p0
                   else resolveInjectedProperties h (data w) p0))) \<and>
   (ignored this \<or> path this = JStr p0 \<longrightarrow>
      mode_after (onApplyActiveEffects h this w) = Inr (mode this) \<and>
      phase_after (onApplyActiveEffects h this w) = Inr (phase this) \<and>
      priority_after (onApplyActiveEffects h this w) = Inr (priority this) \<and>
      path_after (onApplyActiveEffects h this w) =
        Inr (if \<not> ignored this \<and> phase this = ''applyAEs'' \<and> \<not> predicate_fails h this w
             then JStr (resolveInjectedProperties h (data w) p0) else path this) \<and>
      mode_after (beforePrepareData h this w) = Inr (mode this) \<and>
      phase_after (beforePrepareData h this w) = Inr (phase this) \<and>
      priority_after (beforePrepareData h this w) = Inr (priority this) \<and>
      path_after (beforePrepareData h this w) =
        Inr (if \<not> ignored this \<and> phase this = ''beforeDerived'' \<and> \<not> predicate_fails h this w
             then JStr (resolveInjectedProperties h (data w) p0) else path this) \<and>
      mode_after (afterPrepareData h this w) = Inr (mode this) \<and>
      phase_after (afterPrepareData h this w) = Inr (phase this) \<and>
      priority_after (afterPrepareData h this w) = Inr (priority this) \<and>
      path_after (afterPrepareData h this w) =
        Inr (if \<not> ignored this \<and> phase this = ''afterDerived'' \<and> \<not> predicate_fails h this w
             then JStr (resolveInjectedProperties h (data w) p0) else path this))"
proof -
  have a: "mode_after (applyAELike h this w) = Inr (mode this) \<and>
      phase_after (applyAELike h this w) = Inr (phase this) \<and>
      priority_after (applyAELike h this w) = Inr (priority this) \<and>
      path_after (applyAELike h this w) =
        Inr (JStr (if predicate_fails h this w then p0
                   else resolveInjectedProperties h (data w) p0))"
    if "path this = JStr p0"
    using after_of_element(2-5) [OF applyAELike_element [OF that, of h w]] that by simp
  have e1: "mode_after (onApplyActiveEffects h this w) = Inr (mode this) \<and>
      phase_after (onApplyActiveEffects h this w) = Inr (phase this) \<and>
      priority_after (onApplyActiveEffects h this w) = Inr (priority this) \<and>
      path_after (onApplyActiveEffects h this w) =
        Inr (if \<not> ignored this \<and> phase this = ''applyAEs'' \<and> \<not> predicate_fails h this w
             then JStr (resolveInjectedProperties h (data w) p0) else path this)"
    if "ignored this \<or> path this = JStr p0"
    using after_of_element(2-5) [OF onApplyActiveEffects_element [OF that, of h w]] by simp
  have e2: "mode_after (beforePrepareData h this w) = Inr (mode this) \<and>
      phase_after (beforePrepareData h this w) = Inr (phase this) \<and>
      priority_after (beforePrepareData h this w) = Inr (priority this) \<and>
      path_after (beforePrepareData h this w) =
        Inr (if \<not> ignored this \<and> phase this = ''beforeDerived'' \<and> \<not> predicate_fails h this w
             then JStr (resolveInjectedProperties h (data w) p0) else path this)"
    if "ignored this \<or> path this = JStr p0"
    using after_of_element(2-5) [OF beforePrepareData_element [OF that, of h w]] by simp
  have e3: "mode_after (afterPrepareData h this w) = Inr (mode this) \<and>
      phase_after (afterPrepareData h this w) = Inr (phase this) \<and>
      priority_after (afterPrepareData h this w) = Inr (priority this) \<and>
      path_after (afterPrepareData h this w) =
        Inr (if \<not> ignored this \<and> phase this = ''afterDerived'' \<and> \<not> predicate_fails h this w
             then JStr (resolveInjectedProperties h (data w) p0) else path this)"
    if "ignored this \<or> path this = JStr p0"
    using after_of_element(2-5) [OF afterPrepareData_element [OF that, of h w]] by simp
  show ?thesis
    using a e1 e2 e3 by blast
qed

theorem apply_keeps_mode_phase_priority_witness:
  "path (example_rule ''add'' ''skills.{item|slug}.rank'' (JNum (Fin 3))) =
     JStr ''skills.{item|slug}.rank'' \<and>
   mode_after (applyAELike example_host
       (example_rule ''add'' ''skills.{item|slug}.rank'' (JNum (Fin 3))) example_world) =
     Inr (JStr ''add'') \<and>
   phase_after (applyAELike example_host
       (example_rule ''add'' ''skills.{item|slug}.rank'' (JNum (Fin 3))) example_world) =
     Inr ''applyAEs'' \<and>
   priority_after (applyAELike example_host
       (example_rule ''add'' ''skills.{item|slug}.rank'' (JNum (Fin 3))) example_world) =
     Inr (Fin 20) \<and>
   path_after (applyAELike example_host
       (example_rule ''add'' ''skills.{item|slug}.rank'' (JNum (Fin 3))) example_world) =
     Inr (JStr ''skills.stealth.rank'') \<and>
   mode_after (onApplyActiveEffects example_host
       (example_rule ''add'' ''skills.{item|slug}.rank'' (JNum (Fin 3))) example_world) =
     Inr (JStr ''add'') \<and>
   priority_after (onApplyActiveEffects example_host
       (example_rule ''add'' ''skills.{item|slug}.rank'' (JNum (Fin 3))) example_world) =
     Inr (Fin 20) \<and>
   path_after (beforePrepareData example_host
       (example_rule ''add'' ''skills.{item|slug}.rank'' (JNum (Fin 3))) example_world) =
     Inr (JStr ''skills.{item|slug}.rank'') \<and>
   phase_after (afterPrepareData example_host
       (example_rule ''add'' ''skills.{item|slug}.rank'' (JNum (Fin 3))) example_world) =
     Inr ''applyAEs''"
  using apply_keeps_mode_phase_priority
          [of "example_rule ''add'' ''skills.{item|slug}.rank'' (JNum (Fin 3))"
              "''skills.{item|slug}.rank''" example_host example_world]
  by (simp add: example_rule_fields example_predicate example_host_fields(4) example_resolve_def
                default_priority_modes)


section \<open>The change log\<close>

lemma typeof_string_iff: "typeof_js v = ''string'' \<longleftrightarrow> (\<exists>s. v = JStr s)"
  by (cases v) auto

lemma resolve_members_typeof: "typeof_js (resolve_members h t c) = typeof_js c"
  by (cases c) (simp_all add: resolve_members_def)

lemma resolve_members_not_object: "\<not> isObject c \<Longrightarrow> resolve_members h t c = c"
  by (cases c) (simp_all add: resolve_members_def isObject_def)

lemma case_override_match:
  assumes "typeof_js change = typeof_js (getProperty h (data w) p) \<or>
           getProperty h (data w) p = JUndefined"
  shows "case_override h this p change w =
           (if typeof_js change = ''string''
            then logChange this p change (w\<lparr>data := setProperty h (data w) p change\<rparr>)
            else w\<lparr>data := setProperty h (data w) p (resolve_members h (data w) change)\<rparr>)"
  using assms
  by (cases change) (auto simp: case_override_def Let_def resolve_members_def isObject_def)

lemma case_override_mismatch:
  assumes "typeof_js change \<noteq> typeof_js (getProperty h (data w) p)"
    and "getProperty h (data w) p \<noteq> JUndefined"
  shows "case_override h this p change w = w"
  using assms by (simp add: case_override_def Let_def)

lemma case_override_log_not_string:
  "typeof_js change \<noteq> ''string'' \<Longrightarrow>
   autoChanges (case_override h this p change w) = autoChanges w"
  by (simp add: case_override_def Let_def resolve_members_typeof)

lemma array_add_log: "autoChanges (array_add h this p change current w) = autoChanges w"
  by (simp add: array_add_def warn_fields split: jsval.splits)

lemma string_change_log:
  assumes "mode this \<noteq> JStr ''override''"
  shows "autoChanges (case_multiply h this p (JStr s) current w) = autoChanges w"
    and "autoChanges (case_add h this p (JStr s) current w) = autoChanges w"
    and "autoChanges (case_downgrade h this p (JStr s) current w) = autoChanges w"
    and "autoChanges (case_upgrade h this p (JStr s) current w) = autoChanges w"
  by (simp_all add: case_multiply_def case_add_def case_downgrade_def case_upgrade_def
                    warn_fields array_add_log)

lemma applyAELike_string_log:
  assumes "\<not> predicate_fails h this w" and "path this = JStr p0"
    and "p = resolveInjectedProperties h (data w) p0" and "\<not> has_undefined_token p"
    and "resolveValue h (data w) (rvalue this) = JStr s"
    and "mode this \<noteq> JStr ''override''"
  shows "log_after (applyAELike h this w) = Inr (autoChanges w)"
  using assms by (simp add: applyAELike_def Let_def string_change_log)

text \<open>
  C2, amended. Take a rule that runs (the predicate does not fail, the path resolves to
  \<open>p\<close> with no \<open>undefined\<close> token), with \<open>change\<close> its resolved value and \<open>current\<close>
  the value at \<open>p\<close>. A numeric write in the mode multiply, downgrade, upgrade or add
  appends the entry \<open>{mode, level, value, source}\<close> to the log under \<open>p\<close>. An override
  write is logged when, and only when, the written value is a string: an override with
  a value of any other type, a number included, leaves the log as it was. A string
  change in any other mode leaves the log as it was, and so does an add to an array.
\<close>

theorem change_log_entries:
  assumes "\<not> predicate_fails h this w" and "path this = JStr p0"
    and "p = resolveInjectedProperties h (data w) p0" and "\<not> has_undefined_token p"
    and "change = resolveValue h (data w) (rvalue this)"
    and "current = getProperty h (data w) p"
  shows "(mode this \<in> {JStr ''multiply'', JStr ''downgrade'', JStr ''upgrade''} \<and> change = JNum v \<and>
            (typeof_js current = ''number'' \<or> current = JUndefined) \<longrightarrow>
            log_after (applyAELike h this w) =
              Inr (push_entry (autoChanges w) p
                     \<lparr>entry_mode = mode this, entry_level = change_level (item this),
                      entry_value = JNum v, entry_source = item_name (item this)\<rparr>)) \<and>
         (mode this = JStr ''add'' \<and> change = JNum v \<and>
            (typeof_js current = ''number'' \<or> current = JUndefined \<or> current = JNull) \<longrightarrow>
            log_after (applyAELike h this w) =
              Inr (push_entry (autoChanges w) p
                     \<lparr>entry_mode = mode this, entry_level = change_level (item this),
                      entry_value = JNum v, entry_source = item_name (item this)\<rparr>)) \<and>
         (mode this = JStr ''override'' \<and> typeof_js change = ''string'' \<and>
            (typeof_js change = typeof_js current \<or> current = JUndefined) \<longrightarrow>
            tree_after (applyAELike h this w) = Inr (setProperty h (data w) p change) \<and>
            log_after (applyAELike h this w) =
              Inr (push_entry (autoChanges w) p
                     \<lparr>entry_mode = mode this, entry_level = change_level (item this),
                      entry_value = change, entry_source = item_name (item this)\<rparr>)) \<and>
         (mode this = JStr ''override'' \<and> typeof_js change \<noteq> ''string'' \<longrightarrow>
            log_after (applyAELike h this w) = Inr (autoChanges w)) \<and>
         (mode this \<noteq> JStr ''override'' \<and> typeof_js change = ''string'' \<longrightarrow>
            log_after (applyAELike h this w) = Inr (autoChanges w)) \<and>
         (mode this = JStr ''add'' \<and> current = JArr xs \<longrightarrow>
            log_after (applyAELike h this w) = Inr (autoChanges w))"
proof -
  note run = assms(1-4)
  let ?this1 = "this\<lparr>path := JStr p\<rparr>"
  let ?entry = "\<lambda>x. \<lparr>entry_mode = mode this, entry_level = change_level (item this),
                      entry_value = x, entry_source = item_name (item this)\<rparr>"
  have num: "log_after (applyAELike h this w) = Inr (push_entry (autoChanges w) p (?entry (JNum v)))"
    if "mode this \<in> {JStr ''multiply'', JStr ''downgrade'', JStr ''upgrade''}" "change = JNum v"
       "typeof_js current = ''number'' \<or> current = JUndefined"
  proof -
    have "mode this = JStr ''multiply'' \<or> mode this = JStr ''downgrade'' \<or>
          mode this = JStr ''upgrade''"
      using that(1) by simp
    then show ?thesis
    proof (elim disjE)
      assume "mode this = JStr ''multiply''"
      then show ?thesis
        using that(2,3) assms(5,6) applyAELike_multiply [OF run]
        by (simp add: case_multiply_numeric logChange_number)
    next
      assume "mode this = JStr ''downgrade''"
      then show ?thesis
        using that(2,3) assms(5,6) applyAELike_downgrade [OF run]
        by (simp add: case_downgrade_numeric logChange_number)
    next
      assume "mode this = JStr ''upgrade''"
      then show ?thesis
        using that(2,3) assms(5,6) applyAELike_upgrade [OF run]
        by (simp add: case_upgrade_numeric logChange_number)
    qed
  qed
  have add: "log_after (applyAELike h this w) = Inr (push_entry (autoChanges w) p (?entry (JNum v)))"
    if "mode this = JStr ''add''" "change = JNum v"
       "typeof_js current = ''number'' \<or> current = JUndefined \<or> current = JNull"
    using that assms(5,6) applyAELike_add [OF run]
    by (simp add: case_add_numeric logChange_number)
  have ovs: "tree_after (applyAELike h this w) = Inr (setProperty h (data w) p change) \<and>
             log_after (applyAELike h this w) = Inr (push_entry (autoChanges w) p (?entry change))"
    if "mode this = JStr ''override''" "typeof_js change = ''string''"
       "typeof_js change = typeof_js current \<or> current = JUndefined"
  proof -
    have m: "typeof_js change = typeof_js (getProperty h (data w) p) \<or>
             getProperty h (data w) p = JUndefined"
      using that(3) assms(6) by simp
    have eq: "case_override h ?this1 p change w =
                logChange ?this1 p change (w\<lparr>data := setProperty h (data w) p change\<rparr>)"
      using case_override_match [OF m, of ?this1] that(2) by simp
    show ?thesis
      using that(1) applyAELike_override [OF run]
      by (simp add: assms(5) [symmetric] eq logChange_override logChange_data)
  qed
  have ovn: "log_after (applyAELike h this w) = Inr (autoChanges w)"
    if "mode this = JStr ''override''" "typeof_js change \<noteq> ''string''"
    using that assms(5) applyAELike_override [OF run]
    by (simp add: case_override_log_not_string)
  have str: "log_after (applyAELike h this w) = Inr (autoChanges w)"
    if "mode this \<noteq> JStr ''override''" "typeof_js change = ''string''"
  proof -
    note hyp = that
    obtain s where "resolveValue h (data w) (rvalue this) = JStr s"
      using hyp(2) assms(5) by (auto simp: typeof_string_iff)
    then show ?thesis
      using applyAELike_string_log [OF run _ hyp(1)] by simp
  qed
  have arr: "log_after (applyAELike h this w) = Inr (autoChanges w)"
    if "mode this = JStr ''add''" "current = JArr xs"
    using that assms(5,6) applyAELike_add [OF run]
    by (simp add: case_add_array array_add_log)
  show ?thesis
    using num add ovs ovn str arr by blast
qed


lemma example_paths:
  "\<not> has_undefined_token ''attributes.hp.max''"
  "\<not> has_undefined_token ''details.title''"
  "\<not> has_undefined_token ''details.fresh''"
  "\<not> has_undefined_token ''traits.numbers''"
  "\<not> has_undefined_token ''traits.names''"
  "example_resolve ''attributes.hp.max'' = ''attributes.hp.max''"
  "example_resolve ''details.title'' = ''details.title''"
  "example_resolve ''details.fresh'' = ''details.fresh''"
  "example_resolve ''traits.numbers'' = ''traits.numbers''"
  "example_resolve ''traits.names'' = ''traits.names''"
  by (simp_all add: has_undefined_token_def word_char_def example_resolve_def)

lemma example_current:
  "getProperty example_host example_tree ''attributes.hp.max'' = JNum (Fin 5)"
  "getProperty example_host example_tree ''details.title'' = JStr ''x''"
  "getProperty example_host example_tree ''details.fresh'' = JUndefined"
  "getProperty example_host example_tree ''traits.numbers'' = JArr [JNum (Fin 1), JNum (Fin 2)]"
  "getProperty example_host example_tree ''traits.names'' = JArr [JStr ''a'']"
  by (simp_all add: example_host_fields example_tree_def)

lemma example_level: "change_level example_item = JNum (Fin 3)"
  by (simp add: change_level_def example_item_def trailing_level_digits_def digit_char_def
                Number_of_capture_def digits_value_def round64_numeral)

lemma example_item_name: "item_name example_item = ''Toughness''"
  by (simp add: example_item_def)

lemmas example_run =
  example_predicate example_rule_fields example_host_fields(4-7) example_world_fields
  example_paths example_current example_level example_item_name

text \<open>
  C2, as stated, fails for override with a numeric value: line 145 calls \<open>logChange\<close>
  only when the change is a string. The rule \<open>{mode: "override", value: 7}\<close> on a field
  that holds 5 writes 7 and leaves the log empty.
\<close>

theorem numeric_override_not_logged:
  "mode (example_rule ''override'' ''attributes.hp.max'' (JNum (Fin 7))) = JStr ''override'' \<and>
   getProperty example_host (data example_world) ''attributes.hp.max'' = JNum (Fin 5) \<and>
   tree_after (applyAELike example_host
       (example_rule ''override'' ''attributes.hp.max'' (JNum (Fin 7))) example_world) =
     Inr (setProperty example_host (data example_world) ''attributes.hp.max'' (JNum (Fin 7))) \<and>
   getProperty example_host
     (setProperty example_host (data example_world) ''attributes.hp.max'' (JNum (Fin 7)))
     ''attributes.hp.max'' = JNum (Fin 7) \<and>
   log_after (applyAELike example_host
       (example_rule ''override'' ''attributes.hp.max'' (JNum (Fin 7))) example_world) =
     Inr Map.empty"
proof -
  have m: "typeof_js (JNum (Fin 7)) = typeof_js (getProperty example_host (data example_world) ''attributes.hp.max'') \<or>
           getProperty example_host (data example_world) ''attributes.hp.max'' = JUndefined"
    by (simp add: example_run)
  have rd: "getProperty example_host
     (setProperty example_host example_tree ''attributes.hp.max'' (JNum (Fin 7)))
     ''attributes.hp.max'' = JNum (Fin 7)"
    by (simp add: example_host_fields example_tree_def)
  show ?thesis
    using applyAELike_override
            [of example_host "example_rule ''override'' ''attributes.hp.max'' (JNum (Fin 7))"
                example_world "''attributes.hp.max''" "''attributes.hp.max''"]
          case_override_match [OF m]
    by (simp add: example_run rd resolve_members_def)
qed


theorem change_log_entries_witness:
  "\<not> predicate_fails example_host
       (example_rule ''multiply'' ''attributes.hp.max'' (JNum (Fin 2))) example_world \<and>
   path (example_rule ''multiply'' ''attributes.hp.max'' (JNum (Fin 2))) = JStr ''attributes.hp.max'' \<and>
   resolveInjectedProperties example_host (data example_world) ''attributes.hp.max'' =
     ''attributes.hp.max'' \<and>
   \<not> has_undefined_token ''attributes.hp.max'' \<and>
   getProperty example_host (data example_world) ''attributes.hp.max'' = JNum (Fin 5) \<and>
   log_after (applyAELike example_host
       (example_rule ''multiply'' ''attributes.hp.max'' (JNum (Fin 2))) example_world) =
     Inr (push_entry Map.empty ''attributes.hp.max''
            \<lparr>entry_mode = JStr ''multiply'', entry_level = JNum (Fin 3),
             entry_value = JNum (Fin 2), entry_source = ''Toughness''\<rparr>) \<and>
   log_after (applyAELike example_host
       (example_rule ''add'' ''attributes.hp.max'' (JNum (Fin 2))) example_world) =
     Inr (push_entry Map.empty ''attributes.hp.max''
            \<lparr>entry_mode = JStr ''add'', entry_level = JNum (Fin 3),
             entry_value = JNum (Fin 2), entry_source = ''Toughness''\<rparr>) \<and>
   getProperty example_host (data example_world) ''details.title'' = JStr ''x'' \<and>
   tree_after (applyAELike example_host
       (example_rule ''override'' ''details.title'' (JStr ''y'')) example_world) =
     Inr (setProperty example_host (data example_world) ''details.title'' (JStr ''y'')) \<and>
   log_after (applyAELike example_host
       (example_rule ''override'' ''details.title'' (JStr ''y'')) example_world) =
     Inr (push_entry Map.empty ''details.title''
            \<lparr>entry_mode = JStr ''override'', entry_level = JNum (Fin 3),
             entry_value = JStr ''y'', entry_source = ''Toughness''\<rparr>) \<and>
   log_after (applyAELike example_host
       (example_rule ''override'' ''attributes.hp.max'' (JNum (Fin 7))) example_world) =
     Inr Map.empty \<and>
   getProperty example_host (data example_world) ''traits.names'' = JArr [JStr ''a''] \<and>
   log_after (applyAELike example_host
       (example_rule ''add'' ''traits.names'' (JStr ''b'')) example_world) =
     Inr Map.empty"
proof -
  have mul: "log_after (applyAELike example_host
       (example_rule ''multiply'' ''attributes.hp.max'' (JNum (Fin 2))) example_world) =
     Inr (push_entry Map.empty ''attributes.hp.max''
            \<lparr>entry_mode = JStr ''multiply'', entry_level = JNum (Fin 3),
             entry_value = JNum (Fin 2), entry_source = ''Toughness''\<rparr>)"
    using change_log_entries
            [where h = example_host and w = example_world
               and this = "example_rule ''multiply'' ''attributes.hp.max'' (JNum (Fin 2))"
               and ?p0.0 = "''attributes.hp.max''" and p = "''attributes.hp.max''"
               and change = "JNum (Fin 2)" and current = "JNum (Fin 5)" and v = "Fin 2"]
    by (simp add: example_run)
  have add: "log_after (applyAELike example_host
       (example_rule ''add'' ''attributes.hp.max'' (JNum (Fin 2))) example_world) =
     Inr (push_entry Map.empty ''attributes.hp.max''
            \<lparr>entry_mode = JStr ''add'', entry_level = JNum (Fin 3),
             entry_value = JNum (Fin 2), entry_source = ''Toughness''\<rparr>)"
    using change_log_entries
            [where h = example_host and w = example_world
               and this = "example_rule ''add'' ''attributes.hp.max'' (JNum (Fin 2))"
               and ?p0.0 = "''attributes.hp.max''" and p = "''attributes.hp.max''"
               and change = "JNum (Fin 2)" and current = "JNum (Fin 5)" and v = "Fin 2"]
    by (simp add: example_run)
  have ovs: "tree_after (applyAELike example_host
       (example_rule ''override'' ''details.title'' (JStr ''y'')) example_world) =
     Inr (setProperty example_host (data example_world) ''details.title'' (JStr ''y'')) \<and>
   log_after (applyAELike example_host
       (example_rule ''override'' ''details.title'' (JStr ''y'')) example_world) =
     Inr (push_entry Map.empty ''details.title''
            \<lparr>entry_mode = JStr ''override'', entry_level = JNum (Fin 3),
             entry_value = JStr ''y'', entry_source = ''Toughness''\<rparr>)"
    using change_log_entries
            [where h = example_host and w = example_world
               and this = "example_rule ''override'' ''details.title'' (JStr ''y'')"
               and ?p0.0 = "''details.title''" and p = "''details.title''"
               and change = "JStr ''y''" and current = "JStr ''x''"]
    by (simp add: example_run example_resolve_def)
  have ovn: "log_after (applyAELike example_host
       (example_rule ''override'' ''attributes.hp.max'' (JNum (Fin 7))) example_world) =
     Inr Map.empty"
    using change_log_entries
            [where h = example_host and w = example_world
               and this = "example_rule ''override'' ''attributes.hp.max'' (JNum (Fin 7))"
               and ?p0.0 = "''attributes.hp.max''" and p = "''attributes.hp.max''"
               and change = "JNum (Fin 7)" and current = "JNum (Fin 5)"]
    by (simp add: example_run)
  have arr: "log_after (applyAELike example_host
       (example_rule ''add'' ''traits.names'' (JStr ''b'')) example_world) =
     Inr Map.empty"
    using change_log_entries
            [where h = example_host and w = example_world
               and this = "example_rule ''add'' ''traits.names'' (JStr ''b'')"
               and ?p0.0 = "''traits.names''" and p = "''traits.names''"
               and change = "JStr ''b''" and current = "JArr [JStr ''a'']"
               and xs = "[JStr ''a'']"]
    by (simp add: example_run example_resolve_def)
  show ?thesis
    using mul add ovs ovn arr by (simp add: example_run)
qed

section \<open>The value that is logged\<close>

text \<open>
  C10. Every numeric change that is logged (a numeric write in the mode multiply,
  downgrade, upgrade or add) records the resolved operand \<open>v\<close> as the entry's value: the
  values logged under \<open>p\<close> are those logged before, followed by \<open>v\<close>. Multiply with
  \<open>current = 5\<close> and \<open>v = 2\<close> writes 10 at the path and records 2.
\<close>

theorem logged_value_is_operand:
  assumes "\<not> predicate_fails h this w" and "path this = JStr p0"
    and "p = resolveInjectedProperties h (data w) p0" and "\<not> has_undefined_token p"
    and "resolveValue h (data w) (rvalue this) = JNum v"
    and "current = getProperty h (data w) p"
  shows "(mode this \<in> {JStr ''multiply'', JStr ''downgrade'', JStr ''upgrade''} \<and>
            (typeof_js current = ''number'' \<or> current = JUndefined) \<longrightarrow>
            logged_values_after p (applyAELike h this w) =
              Inr (map entry_value (entries_at (autoChanges w) p) @ [JNum v])) \<and>
         (mode this = JStr ''add'' \<and>
            (typeof_js current = ''number'' \<or> current = JUndefined \<or> current = JNull) \<longrightarrow>
            logged_values_after p (applyAELike h this w) =
              Inr (map entry_value (entries_at (autoChanges w) p) @ [JNum v])) \<and>
         (mode this = JStr ''multiply'' \<and> current = JNum (Fin 5) \<and> v = Fin 2 \<longrightarrow>
            tree_after (applyAELike h this w) = Inr (setProperty h (data w) p (JNum (Fin 10))) \<and>
            logged_values_after p (applyAELike h this w) =
              Inr (map entry_value (entries_at (autoChanges w) p) @ [JNum (Fin 2)]))"
proof -
  note run = assms(1-4)
  have mul: "applyAELike h this w =
               Inr (this\<lparr>path := JStr p\<rparr>,
                    logChange (this\<lparr>path := JStr p\<rparr>) p (JNum v)
                      (w\<lparr>data := setProperty h (data w) p
                                   (JNum (js_times (nullish_num current (Fin 0)) v))\<rparr>))"
    if "mode this = JStr ''multiply''" "typeof_js current = ''number'' \<or> current = JUndefined"
    using that assms(5,6) applyAELike_multiply [OF run] by (simp add: case_multiply_numeric)
  have down: "applyAELike h this w =
               Inr (this\<lparr>path := JStr p\<rparr>,
                    logChange (this\<lparr>path := JStr p\<rparr>) p (JNum v)
                      (w\<lparr>data := setProperty h (data w) p
                                   (JNum (Math_min (nullish_num current (Fin 0)) v))\<rparr>))"
    if "mode this = JStr ''downgrade''" "typeof_js current = ''number'' \<or> current = JUndefined"
    using that assms(5,6) applyAELike_downgrade [OF run] by (simp add: case_downgrade_numeric)
  have up: "applyAELike h this w =
               Inr (this\<lparr>path := JStr p\<rparr>,
                    logChange (this\<lparr>path := JStr p\<rparr>) p (JNum v)
                      (w\<lparr>data := setProperty h (data w) p
                                   (JNum (Math_max (nullish_num current (Fin 0)) v))\<rparr>))"
    if "mode this = JStr ''upgrade''" "typeof_js current = ''number'' \<or> current = JUndefined"
    using that assms(5,6) applyAELike_upgrade [OF run] by (simp add: case_upgrade_numeric)
  have add: "applyAELike h this w =
               Inr (this\<lparr>path := JStr p\<rparr>,
                    logChange (this\<lparr>path := JStr p\<rparr>) p (JNum v)
                      (w\<lparr>data := setProperty h (data w) p
                                   (JNum (js_plus (nullish_num current (Fin 0)) v))\<rparr>))"
    if "mode this = JStr ''add''"
       "typeof_js current = ''number'' \<or> current = JUndefined \<or> current = JNull"
    using that assms(5,6) applyAELike_add [OF run] by (simp add: case_add_numeric)
  have vals: "map entry_value (entries_at (autoChanges (logChange e p (JNum n) w')) p) =
                map entry_value (entries_at (autoChanges w') p) @ [JNum n]" for e w' n
    by (simp add: logChange_number entries_at_push_entry)
  have three: "logged_values_after p (applyAELike h this w) =
              Inr (map entry_value (entries_at (autoChanges w) p) @ [JNum v])"
    if "mode this \<in> {JStr ''multiply'', JStr ''downgrade'', JStr ''upgrade''}"
       "typeof_js current = ''number'' \<or> current = JUndefined"
  proof -
    have "mode this = JStr ''multiply'' \<or> mode this = JStr ''downgrade'' \<or>
          mode this = JStr ''upgrade''"
      using that(1) by simp
    then show ?thesis
      using mul [OF _ that(2)] down [OF _ that(2)] up [OF _ that(2)] by (auto simp: vals)
  qed
  have four: "logged_values_after p (applyAELike h this w) =
              Inr (map entry_value (entries_at (autoChanges w) p) @ [JNum v])"
    if "mode this = JStr ''add''"
       "typeof_js current = ''number'' \<or> current = JUndefined \<or> current = JNull"
    using add [OF that] by (simp add: vals)
  have ex: "tree_after (applyAELike h this w) = Inr (setProperty h (data w) p (JNum (Fin 10))) \<and>
            logged_values_after p (applyAELike h this w) =
              Inr (map entry_value (entries_at (autoChanges w) p) @ [JNum (Fin 2)])"
    if "mode this = JStr ''multiply''" "current = JNum (Fin 5)" "v = Fin 2"
    using mul [OF that(1)] that(2,3) by (simp add: vals logChange_data round64_numeral)
  show ?thesis
    using three four ex by blast
qed

theorem logged_value_is_operand_witness:
  "\<not> predicate_fails example_host
       (example_rule ''multiply'' ''attributes.hp.max'' (JNum (Fin 2))) example_world \<and>
   path (example_rule ''multiply'' ''attributes.hp.max'' (JNum (Fin 2))) = JStr ''attributes.hp.max'' \<and>
   resolveInjectedProperties example_host (data example_world) ''attributes.hp.max'' =
     ''attributes.hp.max'' \<and>
   \<not> has_undefined_token ''attributes.hp.max'' \<and>
   resolveValue example_host (data example_world)
     (rvalue (example_rule ''multiply'' ''attributes.hp.max'' (JNum (Fin 2)))) = JNum (Fin 2) \<and>
   getProperty example_host (data example_world) ''attributes.hp.max'' = JNum (Fin 5) \<and>
   tree_after (applyAELike example_host
       (example_rule ''multiply'' ''attributes.hp.max'' (JNum (Fin 2))) example_world) =
     Inr (setProperty example_host (data example_world) ''attributes.hp.max'' (JNum (Fin 10))) \<and>
   logged_values_after ''attributes.hp.max'' (applyAELike example_host
       (example_rule ''multiply'' ''attributes.hp.max'' (JNum (Fin 2))) example_world) =
     Inr [JNum (Fin 2)] \<and>
   logged_values_after ''attributes.hp.max'' (applyAELike example_host
       (example_rule ''add'' ''attributes.hp.max'' (JNum (Fin 2))) example_world) =
     Inr [JNum (Fin 2)]"
proof -
  have mul: "tree_after (applyAELike example_host
       (example_rule ''multiply'' ''attributes.hp.max'' (JNum (Fin 2))) example_world) =
     Inr (setProperty example_host (data example_world) ''attributes.hp.max'' (JNum (Fin 10))) \<and>
   logged_values_after ''attributes.hp.max'' (applyAELike example_host
       (example_rule ''multiply'' ''attributes.hp.max'' (JNum (Fin 2))) example_world) =
     Inr [JNum (Fin 2)]"
    using logged_value_is_operand
            [where h = example_host and w = example_world
               and this = "example_rule ''multiply'' ''attributes.hp.max'' (JNum (Fin 2))"
               and ?p0.0 = "''attributes.hp.max''" and p = "''attributes.hp.max''"
               and current = "JNum (Fin 5)" and v = "Fin 2"]
    by (simp add: example_run entries_at_def)
  have add: "logged_values_after ''attributes.hp.max'' (applyAELike example_host
       (example_rule ''add'' ''attributes.hp.max'' (JNum (Fin 2))) example_world) =
     Inr [JNum (Fin 2)]"
    using logged_value_is_operand
            [where h = example_host and w = example_world
               and this = "example_rule ''add'' ''attributes.hp.max'' (JNum (Fin 2))"
               and ?p0.0 = "''attributes.hp.max''" and p = "''attributes.hp.max''"
               and current = "JNum (Fin 5)" and v = "Fin 2"]
    by (simp add: example_run entries_at_def)
  show ?thesis
    using mul add by (simp add: example_run)
qed


section \<open>Adding to an array\<close>

text \<open>
  C6. In the mode add, when the value at the resolved path is an array that is empty or
  whose elements all have the \<open>typeof\<close> of the resolved value, the value is appended to
  that array, and nothing else in the world changes. When some element has another
  \<open>typeof\<close>, neither the numeric add nor the array add applies: one warning for \<open>path\<close>
  goes to the console, and the tree (so the array) and the log are as they were.
\<close>

theorem add_to_array:
  assumes "\<not> predicate_fails h this w" and "path this = JStr p0"
    and "p = resolveInjectedProperties h (data w) p0" and "\<not> has_undefined_token p"
    and "mode this = JStr ''add''"
    and "change = resolveValue h (data w) (rvalue this)"
    and "getProperty h (data w) p = JArr xs"
  shows "(xs = [] \<or> list_all (\<lambda>e. typeof_js e = typeof_js change) xs \<longrightarrow>
            world_after (applyAELike h this w) =
              Inr (w\<lparr>data := setProperty h (data w) p (JArr (xs @ [change]))\<rparr>)) \<and>
         (\<not> list_all (\<lambda>e. typeof_js e = typeof_js change) xs \<longrightarrow>
            world_after (applyAELike h this w) =
              Inr (w\<lparr>console := console w @ [warn_message ''path'' (item this)]\<rparr>))"
proof -
  have step: "world_after (applyAELike h this w) =
                Inr (array_add h (this\<lparr>path := JStr p\<rparr>) p change (JArr xs) w)"
    using applyAELike_add [OF assms(1-5)] assms(6,7) by (simp add: case_add_array)
  have yes: "world_after (applyAELike h this w) =
               Inr (w\<lparr>data := setProperty h (data w) p (JArr (xs @ [change]))\<rparr>)"
    if "list_all (\<lambda>e. typeof_js e = typeof_js change) xs"
    using step that by (simp add: array_add_def push_in_place_def)
  have no: "world_after (applyAELike h this w) =
              Inr (w\<lparr>console := console w @ [warn_message ''path'' (item this)]\<rparr>)"
    if "\<not> list_all (\<lambda>e. typeof_js e = typeof_js change) xs"
    using step that by (simp add: array_add_def warn_def)
  show ?thesis
    using yes no by auto
qed

theorem add_to_array_witness:
  "\<not> predicate_fails example_host
       (example_rule ''add'' ''traits.numbers'' (JNum (Fin 3))) example_world \<and>
   path (example_rule ''add'' ''traits.numbers'' (JNum (Fin 3))) = JStr ''traits.numbers'' \<and>
   resolveInjectedProperties example_host (data example_world) ''traits.numbers'' =
     ''traits.numbers'' \<and>
   \<not> has_undefined_token ''traits.numbers'' \<and>
   mode (example_rule ''add'' ''traits.numbers'' (JNum (Fin 3))) = JStr ''add'' \<and>
   resolveValue example_host (data example_world)
     (rvalue (example_rule ''add'' ''traits.numbers'' (JNum (Fin 3)))) = JNum (Fin 3) \<and>
   getProperty example_host (data example_world) ''traits.numbers'' =
     JArr [JNum (Fin 1), JNum (Fin 2)] \<and>
   list_all (\<lambda>e. typeof_js e = typeof_js (JNum (Fin 3))) [JNum (Fin 1), JNum (Fin 2)] \<and>
   world_after (applyAELike example_host
       (example_rule ''add'' ''traits.numbers'' (JNum (Fin 3))) example_world) =
     Inr (example_world\<lparr>data := setProperty example_host (data example_world) ''traits.numbers''
                                   (JArr [JNum (Fin 1), JNum (Fin 2), JNum (Fin 3)])\<rparr>) \<and>
   getProperty example_host
     (setProperty example_host (data example_world) ''traits.numbers''
        (JArr [JNum (Fin 1), JNum (Fin 2), JNum (Fin 3)])) ''traits.numbers'' =
     JArr [JNum (Fin 1), JNum (Fin 2), JNum (Fin 3)] \<and>
   getProperty example_host (data example_world) ''traits.names'' = JArr [JStr ''a''] \<and>
   \<not> list_all (\<lambda>e. typeof_js e = typeof_js (JNum (Fin 3))) [JStr ''a''] \<and>
   world_after (applyAELike example_host
       (example_rule ''add'' ''traits.names'' (JNum (Fin 3))) example_world) =
     Inr (example_world\<lparr>console := [warn_message ''path'' example_item]\<rparr>)"
proof -
  have yes: "world_after (applyAELike example_host
       (example_rule ''add'' ''traits.numbers'' (JNum (Fin 3))) example_world) =
     Inr (example_world\<lparr>data := setProperty example_host (data example_world) ''traits.numbers''
                                   (JArr [JNum (Fin 1), JNum (Fin 2), JNum (Fin 3)])\<rparr>)"
    using add_to_array
            [where h = example_host and w = example_world
               and this = "example_rule ''add'' ''traits.numbers'' (JNum (Fin 3))"
               and ?p0.0 = "''traits.numbers''" and p = "''traits.numbers''"
               and change = "JNum (Fin 3)" and xs = "[JNum (Fin 1), JNum (Fin 2)]"]
    by (simp add: example_run)
  have no: "world_after (applyAELike example_host
       (example_rule ''add'' ''traits.names'' (JNum (Fin 3))) example_world) =
     Inr (example_world\<lparr>console := [warn_message ''path'' example_item]\<rparr>)"
    using add_to_array
            [where h = example_host and w = example_world
               and this = "example_rule ''add'' ''traits.names'' (JNum (Fin 3))"
               and ?p0.0 = "''traits.names''" and p = "''traits.names''"
               and change = "JNum (Fin 3)" and xs = "[JStr ''a'']"]
    by (simp add: example_run)
  have rd: "getProperty example_host
     (setProperty example_host example_tree ''traits.numbers''
        (JArr [JNum (Fin 1), JNum (Fin 2), JNum (Fin 3)])) ''traits.numbers'' =
     JArr [JNum (Fin 1), JNum (Fin 2), JNum (Fin 3)]"
    by (simp add: example_host_fields example_tree_def)
  show ?thesis
    using yes no rd by (simp add: example_run)
qed

section \<open>Override\<close>

text \<open>
  C7. In the mode override, when the resolved value has the \<open>typeof\<close> of the current
  value, or the current value is undefined, the value is written at the resolved path
  and no warning is emitted: a key-value object is written with each of its string
  members resolved first, any other value as it is. When the two \<open>typeof\<close>s differ and
  the current value is defined, the world is as it was: no write, no log entry, no
  warning.
\<close>

theorem override_write:
  assumes "\<not> predicate_fails h this w" and "path this = JStr p0"
    and "p = resolveInjectedProperties h (data w) p0" and "\<not> has_undefined_token p"
    and "mode this = JStr ''override''"
    and "change = resolveValue h (data w) (rvalue this)"
    and "current = getProperty h (data w) p"
  shows "(typeof_js change = typeof_js current \<or> current = JUndefined \<longrightarrow>
            (change = JObj kvs \<longrightarrow>
               tree_after (applyAELike h this w) =
                 Inr (setProperty h (data w) p
                        (JObj (map (\<lambda>(key, v). (key, case v of
                                       JStr s \<Rightarrow> JStr (resolveInjectedProperties h (data w) s)
                                     | _ \<Rightarrow> v)) kvs)))) \<and>
            (\<not> isObject change \<longrightarrow>
               tree_after (applyAELike h this w) = Inr (setProperty h (data w) p change)) \<and>
            console_after (applyAELike h this w) = Inr (console w)) \<and>
         (typeof_js change \<noteq> typeof_js current \<and> current \<noteq> JUndefined \<longrightarrow>
            world_after (applyAELike h this w) = Inr w)"
proof -
  have step: "world_after (applyAELike h this w) =
                Inr (case_override h (this\<lparr>path := JStr p\<rparr>) p change w)"
    using applyAELike_override [OF assms(1-5)] assms(6) by simp
  have tree: "tree_after (applyAELike h this w) =
                Inr (setProperty h (data w) p (resolve_members h (data w) change)) \<and>
              console_after (applyAELike h this w) = Inr (console w)"
    if "typeof_js change = typeof_js current \<or> current = JUndefined"
  proof -
    have m: "typeof_js change = typeof_js (getProperty h (data w) p) \<or>
             getProperty h (data w) p = JUndefined"
      using that assms(7) by simp
    have "data (case_override h (this\<lparr>path := JStr p\<rparr>) p change w) =
            setProperty h (data w) p (resolve_members h (data w) change) \<and>
          console (case_override h (this\<lparr>path := JStr p\<rparr>) p change w) = console w"
      by (auto simp: case_override_match [OF m] logChange_data logChange_console
                     typeof_string_iff resolve_members_def)
    then show ?thesis
      using applyAELike_override [OF assms(1-5)] assms(6) by simp
  qed
  have skip: "world_after (applyAELike h this w) = Inr w"
    if "typeof_js change \<noteq> typeof_js current" "current \<noteq> JUndefined"
    using step that assms(7) by (simp add: case_override_mismatch)
  have t1: "tree_after (applyAELike h this w) =
              Inr (setProperty h (data w) p
                     (JObj (map (\<lambda>(key, v). (key, case v of
                                    JStr s \<Rightarrow> JStr (resolveInjectedProperties h (data w) s)
                                  | _ \<Rightarrow> v)) kvs)))"
    if "typeof_js change = typeof_js current \<or> current = JUndefined" "change = JObj kvs"
    using tree [OF that(1)] that(2) by (simp add: resolve_members_def)
  have t2: "tree_after (applyAELike h this w) = Inr (setProperty h (data w) p change)"
    if "typeof_js change = typeof_js current \<or> current = JUndefined" "\<not> isObject change"
    using tree [OF that(1)] resolve_members_not_object [OF that(2), of h "data w"] by simp
  have t3: "console_after (applyAELike h this w) = Inr (console w)"
    if "typeof_js change = typeof_js current \<or> current = JUndefined"
    using tree [OF that] by simp
  show ?thesis
    using t1 t2 t3 skip by blast
qed

theorem override_write_witness:
  "\<not> predicate_fails example_host
       (example_rule ''override'' ''details.fresh'' (JObj [(''a'', JStr ''{item|name}'')]))
       example_world \<and>
   path (example_rule ''override'' ''details.fresh'' (JObj [(''a'', JStr ''{item|name}'')])) =
     JStr ''details.fresh'' \<and>
   resolveInjectedProperties example_host (data example_world) ''details.fresh'' =
     ''details.fresh'' \<and>
   \<not> has_undefined_token ''details.fresh'' \<and>
   mode (example_rule ''override'' ''details.fresh'' (JObj [(''a'', JStr ''{item|name}'')])) =
     JStr ''override'' \<and>
   resolveValue example_host (data example_world)
     (rvalue (example_rule ''override'' ''details.fresh'' (JObj [(''a'', JStr ''{item|name}'')]))) =
     JObj [(''a'', JStr ''{item|name}'')] \<and>
   getProperty example_host (data example_world) ''details.fresh'' = JUndefined \<and>
   tree_after (applyAELike example_host
       (example_rule ''override'' ''details.fresh'' (JObj [(''a'', JStr ''{item|name}'')]))
       example_world) =
     Inr (setProperty example_host (data example_world) ''details.fresh''
            (JObj [(''a'', JStr ''Toughness'')])) \<and>
   console_after (applyAELike example_host
       (example_rule ''override'' ''details.fresh'' (JObj [(''a'', JStr ''{item|name}'')]))
       example_world) = Inr [] \<and>
   getProperty example_host (data example_world) ''details.title'' = JStr ''x'' \<and>
   typeof_js (JObj [(''a'', JStr ''{item|name}'')]) \<noteq> typeof_js (JStr ''x'') \<and>
   world_after (applyAELike example_host
       (example_rule ''override'' ''details.title'' (JObj [(''a'', JStr ''{item|name}'')]))
       example_world) = Inr example_world \<and>
   \<not> isObject (JNum (Fin 7)) \<and>
   tree_after (applyAELike example_host
       (example_rule ''override'' ''attributes.hp.max'' (JNum (Fin 7))) example_world) =
     Inr (setProperty example_host (data example_world) ''attributes.hp.max'' (JNum (Fin 7)))"
proof -
  have r: "example_resolve ''{item|name}'' = ''Toughness''"
    by (simp add: example_resolve_def)
  have fresh: "tree_after (applyAELike example_host
       (example_rule ''override'' ''details.fresh'' (JObj [(''a'', JStr ''{item|name}'')]))
       example_world) =
     Inr (setProperty example_host (data example_world) ''details.fresh''
            (JObj [(''a'', JStr ''Toughness'')])) \<and>
   console_after (applyAELike example_host
       (example_rule ''override'' ''details.fresh'' (JObj [(''a'', JStr ''{item|name}'')]))
       example_world) = Inr []"
    using override_write
            [where h = example_host and w = example_world
               and this = "example_rule ''override'' ''details.fresh'' (JObj [(''a'', JStr ''{item|name}'')])"
               and ?p0.0 = "''details.fresh''" and p = "''details.fresh''"
               and change = "JObj [(''a'', JStr ''{item|name}'')]" and current = JUndefined
               and kvs = "[(''a'', JStr ''{item|name}'')]"]
    by (simp add: example_run r)
  have title: "world_after (applyAELike example_host
       (example_rule ''override'' ''details.title'' (JObj [(''a'', JStr ''{item|name}'')]))
       example_world) = Inr example_world"
    using override_write
            [where h = example_host and w = example_world
               and this = "example_rule ''override'' ''details.title'' (JObj [(''a'', JStr ''{item|name}'')])"
               and ?p0.0 = "''details.title''" and p = "''details.title''"
               and change = "JObj [(''a'', JStr ''{item|name}'')]" and current = "JStr ''x''"]
    by (simp add: example_run)
  have num: "tree_after (applyAELike example_host
       (example_rule ''override'' ''attributes.hp.max'' (JNum (Fin 7))) example_world) =
     Inr (setProperty example_host (data example_world) ''attributes.hp.max'' (JNum (Fin 7)))"
    using override_write
            [where h = example_host and w = example_world
               and this = "example_rule ''override'' ''attributes.hp.max'' (JNum (Fin 7))"
               and ?p0.0 = "''attributes.hp.max''" and p = "''attributes.hp.max''"
               and change = "JNum (Fin 7)" and current = "JNum (Fin 5)"]
    by (simp add: example_run isObject_def)
  show ?thesis
    using fresh title num by (simp add: example_run isObject_def)
qed

end
